theory Spec2Isabelle
  imports Complex_Main
begin

section \<open>Python values, dictionaries and exceptions\<close>

text \<open>
  The repository is a FastAPI backend in two generations: the package under
  \<^verbatim>\<open>src/src\<close> (names suffixed \<open>_src\<close> below) and the package under
  \<^verbatim>\<open>src/backend/app\<close> (names suffixed \<open>_app\<close>). Both pass results around as
  Python dictionaries with string keys, so the embedding keeps dictionaries: an association
  list in insertion order, read with \<open>map_of\<close>.

  Text is \<open>string\<close>. The case functions below act on ASCII letters only.

  \<open>PHmacB64 key message\<close> stands for the text
  \<^verbatim>\<open>base64.b64encode(hmac.new(key, message, digestmod=hashlib.sha256).digest()).decode()\<close>:
  the library computation is kept symbolic, with the key and the message it is applied to.
  It is a non-empty text (44 characters), hence truthy. \<open>PTime t\<close> is a
  \<^verbatim>\<open>datetime\<close>, the clock reading \<open>t\<close>.

  Calls of \<^verbatim>\<open>logger\<close> are left out: they return nothing and change no state
  that the handlers read.
\<close>

datatype pyval =
    PNone
  | PStr string
  | PInt int
  | PFloat real
  | PBool bool
  | PList "pyval list"
  | PDict "(string \<times> pyval) list"
  | PTime nat
  | PHmacB64 string string

type_synonym pydict = "(string \<times> pyval) list"

fun truthy :: "pyval \<Rightarrow> bool" where
  "truthy PNone = False"
| "truthy (PStr s) = (s \<noteq> [])"
| "truthy (PInt i) = (i \<noteq> 0)"
| "truthy (PFloat r) = (r \<noteq> 0)"
| "truthy (PBool b) = b"
| "truthy (PList xs) = (xs \<noteq> [])"
| "truthy (PDict d) = (d \<noteq> [])"
| "truthy (PTime t) = True"
| "truthy (PHmacB64 k m) = True"

text \<open>\<^verbatim>\<open>if s:\<close> for an \<^verbatim>\<open>Optional[str]\<close>.\<close>

fun truthy_opt :: "string option \<Rightarrow> bool" where
  "truthy_opt None = False"
| "truthy_opt (Some s) = (s \<noteq> [])"

fun opt_val :: "string option \<Rightarrow> pyval" where
  "opt_val None = PNone"
| "opt_val (Some s) = PStr s"

datatype exn =
    ClientError string string string
  | KeyError string
  | NameError string
  | ValueError string
  | IntegrityError string
  | SQLAlchemyError string
  | MultipleResultsFound
  | OtherException string

text \<open>
  \<open>ClientError code message operation\<close> is botocore's exception:
  \<^verbatim>\<open>e.response['Error']['Code']\<close> is \<open>code\<close> and
  \<^verbatim>\<open>e.response['Error']['Message']\<close> is \<open>message\<close>.
  \<open>exn_str\<close> is Python's \<^verbatim>\<open>str(e)\<close>.
\<close>

fun exn_str :: "exn \<Rightarrow> string" where
  "exn_str (ClientError c m opn) =
     ''An error occurred ('' @ c @ '') when calling the '' @ opn @ '' operation: '' @ m"
| "exn_str (KeyError k) = [CHR 0x27] @ k @ [CHR 0x27]"
| "exn_str (NameError n) = ''name '' @ [CHR 0x27] @ n @ [CHR 0x27] @ '' is not defined''"
| "exn_str (ValueError t) = t"
| "exn_str (IntegrityError t) = t"
| "exn_str (SQLAlchemyError t) = t"
| "exn_str MultipleResultsFound = ''Multiple rows were found when one or none was required''"
| "exn_str (OtherException t) = t"

text \<open>\<^verbatim>\<open>d.get(k)\<close>, \<^verbatim>\<open>d.get(k, default)\<close> and \<^verbatim>\<open>d[k]\<close>.\<close>

definition dict_get :: "pydict \<Rightarrow> string \<Rightarrow> pyval" where
  "dict_get d k = (case map_of d k of None \<Rightarrow> PNone | Some v \<Rightarrow> v)"

definition dict_get_or :: "pydict \<Rightarrow> string \<Rightarrow> pyval \<Rightarrow> pyval" where
  "dict_get_or d k dflt = (case map_of d k of None \<Rightarrow> dflt | Some v \<Rightarrow> v)"

definition dict_item :: "pydict \<Rightarrow> string \<Rightarrow> exn + pyval" where
  "dict_item d k = (case map_of d k of None \<Rightarrow> Inl (KeyError k) | Some v \<Rightarrow> Inr v)"

text \<open>
  \<^verbatim>\<open>v[k]\<close> on a value that should be a dictionary. On any other value Python raises a
  \<^verbatim>\<open>TypeError\<close> whose message depends on the value's type; the message is not
  reproduced here.
\<close>

fun val_item :: "pyval \<Rightarrow> string \<Rightarrow> exn + pyval" where
  "val_item (PDict d) k = dict_item d k"
| "val_item v k = Inl (OtherException ''TypeError'')"

section \<open>The identity provider client and the gateway object\<close>

text \<open>
  \<^verbatim>\<open>self.client\<close> is boto3's client of the identity provider. Each call takes the
  keyword arguments as a dictionary and either returns the response dictionary or raises.
  What the provider answers is the environment's choice, so the client is a record of
  functions.
\<close>

record cognito_client =
  sign_up :: "pydict \<Rightarrow> exn + pydict"
  initiate_auth :: "pydict \<Rightarrow> exn + pydict"
  get_user :: "string \<Rightarrow> exn + pydict"

text \<open>
  \<^verbatim>\<open>class CognitoService\<close> (both generations) and \<^verbatim>\<open>class CognitoAuth\<close>
  hold the same four attributes.
\<close>

record cognito_service =
  client :: cognito_client
  user_pool_id :: string
  client_id :: string
  client_secret :: "string option"

text \<open>
  \<^verbatim>\<open>_get_secret_hash(self, username)\<close>, the same text in
  \<^verbatim>\<open>src/services/cognito_service.py\<close>, \<^verbatim>\<open>backend/app/services/cognito_service.py\<close>
  and \<^verbatim>\<open>backend/app/core/security.py\<close>. With texts as byte strings,
  \<^verbatim>\<open>bytes(s, 'utf-8')\<close> is the text itself.
\<close>

definition get_secret_hash :: "cognito_service \<Rightarrow> string \<Rightarrow> pyval" where
  "get_secret_hash self username =
     (if \<not> truthy_opt (client_secret self) then PNone
      else
        let message = username @ client_id self;
            key = the (client_secret self)
        in PHmacB64 key message)"

text \<open>Sequencing of steps that may raise: the first exception ends the block.\<close>

definition try_bind :: "'e + 'a \<Rightarrow> ('a \<Rightarrow> 'e + 'b) \<Rightarrow> 'e + 'b" where
  "try_bind m f = (case m of Inl e \<Rightarrow> Inl e | Inr x \<Rightarrow> f x)"

section \<open>Requests sent to the provider\<close>

text \<open>
  The three credential operations build their keyword arguments in the same way in both
  generations; the arguments are what the provider receives, so they are named here.
  \<open>sign_up_params\<close> is \<^verbatim>\<open>params\<close> of \<^verbatim>\<open>register_user\<close>,
  \<open>auth_params\<close> of \<^verbatim>\<open>authenticate_user\<close> and \<open>refresh_params\<close> of
  \<^verbatim>\<open>refresh_tokens\<close>, each at the point of the call.
\<close>

definition sign_up_params ::
  "cognito_service \<Rightarrow> string \<Rightarrow> string \<Rightarrow> string \<Rightarrow> string option \<Rightarrow> string option \<Rightarrow> pydict" where
  "sign_up_params self email password username first_name last_name =
     (let user_attributes =
            [PDict [(''Name'', PStr ''email''), (''Value'', PStr email)],
             PDict [(''Name'', PStr ''preferred_username''), (''Value'', PStr username)]]
            @ (if truthy_opt first_name
               then [PDict [(''Name'', PStr ''given_name''), (''Value'', opt_val first_name)]]
               else [])
            @ (if truthy_opt last_name
               then [PDict [(''Name'', PStr ''family_name''), (''Value'', opt_val last_name)]]
               else []);
          params =
            [(''ClientId'', PStr (client_id self)),
             (''Username'', PStr email),
             (''Password'', PStr password),
             (''UserAttributes'', PList user_attributes)];
          secret_hash = get_secret_hash self email
      in if truthy secret_hash then params @ [(''SecretHash'', secret_hash)] else params)"

definition auth_params :: "cognito_service \<Rightarrow> string \<Rightarrow> string \<Rightarrow> pydict" where
  "auth_params self email password =
     (let auth_parameters = [(''USERNAME'', PStr email), (''PASSWORD'', PStr password)];
          secret_hash = get_secret_hash self email
      in [(''ClientId'', PStr (client_id self)),
          (''AuthFlow'', PStr ''USER_PASSWORD_AUTH''),
          (''AuthParameters'',
             PDict (if truthy secret_hash
                    then auth_parameters @ [(''SECRET_HASH'', secret_hash)]
                    else auth_parameters))])"

definition refresh_params :: "cognito_service \<Rightarrow> string \<Rightarrow> pydict" where
  "refresh_params self refresh_token =
     (let auth_parameters = [(''REFRESH_TOKEN'', PStr refresh_token)]
      in [(''ClientId'', PStr (client_id self)),
          (''AuthFlow'', PStr ''REFRESH_TOKEN_AUTH''),
          (''AuthParameters'',
             PDict (if truthy_opt (client_secret self)
                    then auth_parameters @ [(''SECRET_HASH'', get_secret_hash self refresh_token)]
                    else auth_parameters))])"

section \<open>The gateway of \<^verbatim>\<open>src/services/cognito_service.py\<close>\<close>

text \<open>
  Every operation returns \<^verbatim>\<open>(success, result)\<close>. The \<^verbatim>\<open>except\<close> chain of
  each operation is a function of the exception caught.
\<close>

definition internal_error_src :: "bool \<times> pydict" where
  "internal_error_src =
     (False, [(''error'', PStr ''INTERNAL_ERROR''), (''message'', PStr ''An unexpected error occurred'')])"

fun register_except_src :: "exn \<Rightarrow> bool \<times> pydict" where
  "register_except_src (ClientError error_code error_message opn) =
     (if error_code = ''UsernameExistsException'' then
        (False, [(''error'', PStr ''USER_EXISTS''),
                 (''message'', PStr ''User with this email already exists'')])
      else if error_code = ''InvalidPasswordException'' then
        (False, [(''error'', PStr ''INVALID_PASSWORD''), (''message'', PStr error_message)])
      else if error_code = ''InvalidParameterException'' then
        (False, [(''error'', PStr ''INVALID_PARAMETER''), (''message'', PStr error_message)])
      else
        (False, [(''error'', PStr ''REGISTRATION_FAILED''),
                 (''message'', PStr ''Failed to register user'')]))"
| "register_except_src e = internal_error_src"

definition register_user_src ::
  "cognito_service \<Rightarrow> string \<Rightarrow> string \<Rightarrow> string \<Rightarrow> string option \<Rightarrow> string option
     \<Rightarrow> bool \<times> pydict" where
  "register_user_src self email password username first_name last_name =
     (case try_bind
             (sign_up (client self)
                (sign_up_params self email password username first_name last_name))
             (\<lambda>response.
                try_bind (dict_item response ''UserSub'') (\<lambda>user_sub.
                  Inr [(''user_sub'', user_sub),
                       (''user_confirmed'', dict_get_or response ''UserConfirmed'' (PBool False)),
                       (''code_delivery_details'', dict_get response ''CodeDeliveryDetails'')]))
      of Inr result \<Rightarrow> (True, result)
       | Inl e \<Rightarrow> register_except_src e)"

fun authenticate_except_src :: "exn \<Rightarrow> bool \<times> pydict" where
  "authenticate_except_src (ClientError error_code error_message opn) =
     (if error_code = ''NotAuthorizedException'' then
        (False, [(''error'', PStr ''INVALID_CREDENTIALS''),
                 (''message'', PStr ''Invalid email or password'')])
      else if error_code = ''UserNotFoundException'' then
        (False, [(''error'', PStr ''USER_NOT_FOUND''), (''message'', PStr ''User not found'')])
      else if error_code = ''UserNotConfirmedException'' then
        (False, [(''error'', PStr ''USER_NOT_CONFIRMED''),
                 (''message'', PStr ''User account not confirmed'')])
      else if error_code = ''PasswordResetRequiredException'' then
        (False, [(''error'', PStr ''PASSWORD_RESET_REQUIRED''),
                 (''message'', PStr ''Password reset required'')])
      else
        (False, [(''error'', PStr ''AUTH_FAILED''), (''message'', PStr ''Authentication failed'')]))"
| "authenticate_except_src e = internal_error_src"

text \<open>
  The token dictionary read from \<^verbatim>\<open>response['AuthenticationResult']\<close>; a missing key
  raises \<open>KeyError\<close>, in the order the dictionary display evaluates its values.
\<close>

definition auth_tokens :: "pydict \<Rightarrow> exn + pydict" where
  "auth_tokens response =
     try_bind (dict_item response ''AuthenticationResult'') (\<lambda>auth_result.
     try_bind (val_item auth_result ''AccessToken'') (\<lambda>access_token.
     try_bind (val_item auth_result ''IdToken'') (\<lambda>id_token.
     try_bind (val_item auth_result ''RefreshToken'') (\<lambda>refresh_token.
     try_bind (val_item auth_result ''ExpiresIn'') (\<lambda>expires_in.
     try_bind (val_item auth_result ''TokenType'') (\<lambda>token_type.
       Inr [(''access_token'', access_token),
            (''id_token'', id_token),
            (''refresh_token'', refresh_token),
            (''expires_in'', expires_in),
            (''token_type'', token_type)]))))))"

definition authenticate_user_src :: "cognito_service \<Rightarrow> string \<Rightarrow> string \<Rightarrow> bool \<times> pydict" where
  "authenticate_user_src self email password =
     (case initiate_auth (client self) (auth_params self email password) of
        Inl e \<Rightarrow> authenticate_except_src e
      | Inr response \<Rightarrow>
          if truthy (dict_get response ''ChallengeName'') then
            (False, [(''error'', PStr ''AUTH_CHALLENGE''),
                     (''challenge'', dict_get response ''ChallengeName''),
                     (''session'', dict_get response ''Session''),
                     (''message'', PStr ''Authentication challenge required'')])
          else
            (case auth_tokens response of
               Inr result \<Rightarrow> (True, result)
             | Inl e \<Rightarrow> authenticate_except_src e))"

fun refresh_except_src :: "exn \<Rightarrow> bool \<times> pydict" where
  "refresh_except_src (ClientError error_code error_message opn) =
     (if error_code = ''NotAuthorizedException'' then
        (False, [(''error'', PStr ''INVALID_REFRESH_TOKEN''),
                 (''message'', PStr ''Invalid or expired refresh token'')])
      else
        (False, [(''error'', PStr ''REFRESH_FAILED''),
                 (''message'', PStr ''Failed to refresh tokens'')]))"
| "refresh_except_src e = internal_error_src"

definition refresh_tokens_src :: "cognito_service \<Rightarrow> string \<Rightarrow> bool \<times> pydict" where
  "refresh_tokens_src self refresh_token =
     (case try_bind (initiate_auth (client self) (refresh_params self refresh_token))
             (\<lambda>response.
                try_bind (dict_item response ''AuthenticationResult'') (\<lambda>auth_result.
                try_bind (val_item auth_result ''AccessToken'') (\<lambda>access_token.
                try_bind (val_item auth_result ''IdToken'') (\<lambda>id_token.
                try_bind (val_item auth_result ''ExpiresIn'') (\<lambda>expires_in.
                try_bind (val_item auth_result ''TokenType'') (\<lambda>token_type.
                  Inr [(''access_token'', access_token),
                       (''id_token'', id_token),
                       (''expires_in'', expires_in),
                       (''token_type'', token_type)]))))))
      of Inr result \<Rightarrow> (True, result)
       | Inl e \<Rightarrow> refresh_except_src e)"

section \<open>The gateway of \<^verbatim>\<open>backend/app/services/cognito_service.py\<close>\<close>

fun service_except_app :: "exn \<Rightarrow> bool \<times> pydict" where
  "service_except_app (ClientError error_code error_message opn) =
     (False, [(''error'', PStr error_code), (''message'', PStr error_message)])"
| "service_except_app e =
     (False, [(''error'', PStr ''INTERNAL_ERROR''), (''message'', PStr (exn_str e))])"

definition register_user_app ::
  "cognito_service \<Rightarrow> string \<Rightarrow> string \<Rightarrow> string \<Rightarrow> string option \<Rightarrow> string option
     \<Rightarrow> bool \<times> pydict" where
  "register_user_app self email password username first_name last_name =
     (case try_bind
             (sign_up (client self)
                (sign_up_params self email password username first_name last_name))
             (\<lambda>response.
                try_bind (dict_item response ''UserSub'') (\<lambda>user_sub.
                  Inr [(''user_sub'', user_sub),
                       (''user_confirmed'', dict_get_or response ''UserConfirmed'' (PBool False))]))
      of Inr result \<Rightarrow> (True, result)
       | Inl e \<Rightarrow> service_except_app e)"

definition authenticate_user_app :: "cognito_service \<Rightarrow> string \<Rightarrow> string \<Rightarrow> bool \<times> pydict" where
  "authenticate_user_app self email password =
     (case initiate_auth (client self) (auth_params self email password) of
        Inl e \<Rightarrow> service_except_app e
      | Inr response \<Rightarrow>
          if truthy (dict_get response ''ChallengeName'') then
            (False, [(''error'', PStr ''AUTH_CHALLENGE''),
                     (''challenge'', dict_get response ''ChallengeName''),
                     (''session'', dict_get response ''Session'')])
          else
            (case auth_tokens response of
               Inr result \<Rightarrow> (True, result)
             | Inl e \<Rightarrow> service_except_app e))"

definition refresh_tokens_app :: "cognito_service \<Rightarrow> string \<Rightarrow> bool \<times> pydict" where
  "refresh_tokens_app self refresh_token =
     (case try_bind (initiate_auth (client self) (refresh_params self refresh_token))
             (\<lambda>response.
                try_bind (dict_item response ''AuthenticationResult'') (\<lambda>auth_result.
                try_bind (val_item auth_result ''AccessToken'') (\<lambda>access_token.
                try_bind (val_item auth_result ''IdToken'') (\<lambda>id_token.
                try_bind (val_item auth_result ''ExpiresIn'') (\<lambda>expires_in.
                try_bind (val_item auth_result ''TokenType'') (\<lambda>token_type.
                  Inr [(''access_token'', access_token),
                       (''id_token'', id_token),
                       (''refresh_token'', PStr refresh_token),
                       (''expires_in'', expires_in),
                       (''token_type'', token_type)]))))))
      of Inr result \<Rightarrow> (True, result)
       | Inl e \<Rightarrow> service_except_app e)"

section \<open>Text functions\<close>

text \<open>
  \<^verbatim>\<open>str.lower\<close>, \<^verbatim>\<open>str.isalnum\<close>, \<^verbatim>\<open>sub in text\<close> and
  \<^verbatim>\<open>text.split('@')[0]\<close>, on ASCII text.
\<close>

definition upper_letters :: string where
  "upper_letters = ''ABCDEFGHIJKLMNOPQRSTUVWXYZ''"

definition lower_letters :: string where
  "lower_letters = ''abcdefghijklmnopqrstuvwxyz''"

definition digits :: string where
  "digits = ''0123456789''"

definition lower_chr :: "char \<Rightarrow> char" where
  "lower_chr c = (case map_of (zip upper_letters lower_letters) c of Some l \<Rightarrow> l | None \<Rightarrow> c)"

definition lower :: "string \<Rightarrow> string" where
  "lower s = map lower_chr s"

definition isalnum :: "string \<Rightarrow> bool" where
  "isalnum s = (s \<noteq> [] \<and> list_all (\<lambda>c. c \<in> set (upper_letters @ lower_letters @ digits)) s)"

fun contains :: "string \<Rightarrow> string \<Rightarrow> bool" where
  "contains sub [] = (sub = [])"
| "contains sub (c # cs) = (take (length sub) (c # cs) = sub \<or> contains sub cs)"

definition before_at :: "string \<Rightarrow> string" where
  "before_at s = takeWhile (\<lambda>c. c \<noteq> CHR ''@'') s"

section \<open>Request and response models\<close>

text \<open>
  Several classes share field names, so every field carries a prefix naming its class:
  \<open>rq_\<close> for \<^verbatim>\<open>UserRegistrationRequest\<close>, \<open>lg_\<close> for \<^verbatim>\<open>UserLoginRequest\<close>,
  \<open>rr_\<close> for \<^verbatim>\<open>UserRegistrationResponse\<close>, \<open>tk_\<close> for \<^verbatim>\<open>AuthTokenResponse\<close>.
  A handler receives a request that the framework has validated already.
\<close>

record user_registration_request =
  rq_email :: string
  rq_password :: string
  rq_username :: string
  rq_first_name :: "string option"
  rq_last_name :: "string option"

record user_login_request =
  lg_email :: string
  lg_password :: string

record user_registration_response =
  rr_user_id :: string
  rr_email :: string
  rr_username :: string
  rr_created_at :: nat
  rr_message :: string

record auth_token_response =
  tk_access_token :: string
  tk_id_token :: string
  tk_refresh_token :: string
  tk_expires_in :: int
  tk_token_type :: string

text \<open>
  \<^verbatim>\<open>validate_username\<close> of \<^verbatim>\<open>UserRegistrationRequest\<close> (both generations), with
  the length bounds of the field (3 to 50) checked first as the field declaration does.
\<close>

definition validate_username :: "string \<Rightarrow> exn + string" where
  "validate_username v =
     (if length v < 3 \<or> 50 < length v then Inl (ValueError ''length'')
      else if \<not> isalnum (filter (\<lambda>c. c \<noteq> CHR ''-'') (filter (\<lambda>c. c \<noteq> CHR ''_'') v))
      then Inl (ValueError
             ''Username can only contain letters, numbers, underscores, and hyphens'')
      else Inr (lower v))"

text \<open>
  A value that must be a text: a key of a dictionary, or the value of a text column of the
  database. Any other value is refused.
\<close>

fun as_str :: "pyval \<Rightarrow> exn + string" where
  "as_str (PStr s) = Inr s"
| "as_str v = Inl (ValueError ''str type expected'')"

text \<open>
  The response models are validated by the library (pydantic). Which values it accepts for
  a \<^verbatim>\<open>str\<close> field and for an \<^verbatim>\<open>int\<close> field, and what it makes of them (an
  \<^verbatim>\<open>int\<close> field also takes \<^verbatim>\<open>'3600'\<close>, \<^verbatim>\<open>3600.0\<close> and \<^verbatim>\<open>True\<close>), depends on its
  version and mode and is no code of this repository. The two field validators are
  therefore parameters of every handler that builds a response model: each returns the
  field's value or raises a validation error.
\<close>

record pydantic =
  str_field :: "pyval \<Rightarrow> exn + string"
  int_field :: "pyval \<Rightarrow> exn + int"

definition AuthTokenResponse ::
  "pydantic \<Rightarrow> pyval \<Rightarrow> pyval \<Rightarrow> pyval \<Rightarrow> pyval \<Rightarrow> pyval \<Rightarrow> exn + auth_token_response" where
  "AuthTokenResponse pyd access_token id_token refresh_token expires_in token_type =
     try_bind (str_field pyd access_token) (\<lambda>a.
     try_bind (str_field pyd id_token) (\<lambda>i.
     try_bind (str_field pyd refresh_token) (\<lambda>r.
     try_bind (int_field pyd expires_in) (\<lambda>e.
     try_bind (str_field pyd token_type) (\<lambda>t.
       Inr \<lparr>tk_access_token = a, tk_id_token = i, tk_refresh_token = r,
            tk_expires_in = e, tk_token_type = t\<rparr>)))))"

text \<open>
  \<^verbatim>\<open>AuthTokenResponse(**result)\<close>: the four required fields must be keys of the
  dictionary; \<^verbatim>\<open>token_type\<close> is validated when it is a key and is the default
  \<^verbatim>\<open>"Bearer"\<close> otherwise; other keys are ignored.
\<close>

definition AuthTokenResponse_kwargs :: "pydantic \<Rightarrow> pydict \<Rightarrow> exn + auth_token_response" where
  "AuthTokenResponse_kwargs pyd d =
     (if map_of d ''access_token'' = None \<or> map_of d ''id_token'' = None
         \<or> map_of d ''refresh_token'' = None \<or> map_of d ''expires_in'' = None
      then Inl (ValueError ''field required'')
      else
        try_bind (str_field pyd (dict_get d ''access_token'')) (\<lambda>a.
        try_bind (str_field pyd (dict_get d ''id_token'')) (\<lambda>i.
        try_bind (str_field pyd (dict_get d ''refresh_token'')) (\<lambda>r.
        try_bind (int_field pyd (dict_get d ''expires_in'')) (\<lambda>e.
        try_bind (case map_of d ''token_type'' of
                    None \<Rightarrow> Inr ''Bearer''
                  | Some token_type \<Rightarrow> str_field pyd token_type) (\<lambda>t.
          Inr \<lparr>tk_access_token = a, tk_id_token = i, tk_refresh_token = r,
               tk_expires_in = e, tk_token_type = t\<rparr>))))))"

section \<open>What a handler raises\<close>

text \<open>
  \<open>HTTPException status_code detail headers\<close> is FastAPI's exception, which the framework
  turns into the response of that status; \<open>Uncaught e\<close> is any other exception leaving a
  handler.
\<close>

datatype failure =
    HTTPException nat pyval "(string \<times> string) list"
  | Uncaught exn

text \<open>The clock and the identifiers \<^verbatim>\<open>uuid4()\<close> hands out during one request.\<close>

record env =
  now :: nat
  new_user_id :: string
  new_profile_id :: string

text \<open>
  \<^verbatim>\<open>ErrorResponse(error=..., message=..., status_code=...).dict()\<close> of
  \<^verbatim>\<open>src/models/auth_models.py\<close>.
\<close>

definition ErrorResponse_dict :: "env \<Rightarrow> pyval \<Rightarrow> pyval \<Rightarrow> nat \<Rightarrow> pyval" where
  "ErrorResponse_dict env error message status_code =
     PDict [(''error'', error), (''message'', message),
            (''status_code'', PInt (int status_code)), (''timestamp'', PTime (now env))]"

text \<open>\<^verbatim>\<open>error_mapping.get(result.get('error'), default)\<close>.\<close>

definition mapping_get :: "(string \<times> nat) list \<Rightarrow> pyval \<Rightarrow> nat \<Rightarrow> nat" where
  "mapping_get m key dflt =
     (case key of
        PStr c \<Rightarrow> (case map_of m c of Some v \<Rightarrow> v | None \<Rightarrow> dflt)
      | _ \<Rightarrow> dflt)"

section \<open>The user repository of \<^verbatim>\<open>src/database/user_repository.py\<close>\<close>

text \<open>
  The table \<^verbatim>\<open>users\<close> is the list of its rows (fields prefixed \<open>su_\<close>). Whether the
  database session raises during a call is the environment's choice: \<open>db_error\<close> is the
  exception it raises, if any. The column \<^verbatim>\<open>metadata\<close> holds \<^verbatim>\<open>str(metadata)\<close>; the
  model keeps the dictionary itself, and keeps a \<^verbatim>\<open>datetime\<close> where the source returns
  its \<^verbatim>\<open>isoformat()\<close>.
\<close>

record user_src =
  su_id :: string
  su_cognito_id :: pyval
  su_email :: string
  su_username :: string
  su_first_name :: "string option"
  su_last_name :: "string option"
  su_created_at :: nat
  su_updated_at :: nat
  su_last_login :: "nat option"
  su_metadata :: "pydict option"

text \<open>The \<^verbatim>\<open>except\<close> chain of \<^verbatim>\<open>create_user\<close>.\<close>

fun create_user_except :: "exn \<Rightarrow> pydict" where
  "create_user_except (IntegrityError t) =
     (if contains ''email'' t then
        [(''error'', PStr ''EMAIL_EXISTS''), (''message'', PStr ''Email already exists'')]
      else if contains ''username'' t then
        [(''error'', PStr ''USERNAME_EXISTS''), (''message'', PStr ''Username already exists'')]
      else if contains ''cognito_id'' t then
        [(''error'', PStr ''COGNITO_ID_EXISTS''), (''message'', PStr ''Cognito ID already exists'')]
      else
        [(''error'', PStr ''DUPLICATE_USER''), (''message'', PStr ''User already exists'')])"
| "create_user_except (SQLAlchemyError t) =
     [(''error'', PStr ''DATABASE_ERROR''), (''message'', PStr ''Failed to create user in database'')]"
| "create_user_except MultipleResultsFound =
     [(''error'', PStr ''DATABASE_ERROR''), (''message'', PStr ''Failed to create user in database'')]"
| "create_user_except e =
     [(''error'', PStr ''INTERNAL_ERROR''), (''message'', PStr ''An unexpected error occurred'')]"

definition create_user ::
  "user_src list \<Rightarrow> env \<Rightarrow> exn option \<Rightarrow> pyval \<Rightarrow> string \<Rightarrow> string \<Rightarrow> string option
     \<Rightarrow> string option \<Rightarrow> pydict option \<Rightarrow> pydict \<times> user_src list" where
  "create_user table env db_error cognito_id email username first_name last_name metadata =
     (let user =
            \<lparr>su_id = new_user_id env,
             su_cognito_id = cognito_id,
             su_email = lower email,
             su_username = lower username,
             su_first_name = first_name,
             su_last_name = last_name,
             su_created_at = now env,
             su_updated_at = now env,
             su_last_login = None,
             su_metadata = (case metadata of None \<Rightarrow> None
                            | Some d \<Rightarrow> if d = [] then None else Some d)\<rparr>
      in case db_error of
           None \<Rightarrow>
             ([(''id'', PStr (su_id user)),
               (''cognito_id'', su_cognito_id user),
               (''email'', PStr (su_email user)),
               (''username'', PStr (su_username user)),
               (''first_name'', opt_val (su_first_name user)),
               (''last_name'', opt_val (su_last_name user)),
               (''created_at'', PTime (su_created_at user)),
               (''updated_at'', PTime (su_updated_at user))],
              table @ [user])
         | Some e \<Rightarrow> (create_user_except e, table))"

text \<open>
  \<^verbatim>\<open>except SQLAlchemyError\<close> catches the library's own exceptions, of which
  \<open>IntegrityError\<close> and \<open>MultipleResultsFound\<close> are subclasses.
\<close>

fun is_sqlalchemy_error :: "exn \<Rightarrow> bool" where
  "is_sqlalchemy_error (IntegrityError t) = True"
| "is_sqlalchemy_error (SQLAlchemyError t) = True"
| "is_sqlalchemy_error MultipleResultsFound = True"
| "is_sqlalchemy_error e = False"

text \<open>The first row that satisfies \<open>P\<close> is replaced by its image under \<open>f\<close>.\<close>

fun update_first :: "('a \<Rightarrow> bool) \<Rightarrow> ('a \<Rightarrow> 'a) \<Rightarrow> 'a list \<Rightarrow> 'a list" where
  "update_first P f [] = []"
| "update_first P f (x # xs) = (if P x then f x # xs else x # update_first P f xs)"

definition update_last_login ::
  "user_src list \<Rightarrow> env \<Rightarrow> exn option \<Rightarrow> string \<Rightarrow> (exn + bool) \<times> user_src list" where
  "update_last_login table env db_error email =
     (case db_error of
        Some e \<Rightarrow> (if is_sqlalchemy_error e then (Inr False, table) else (Inl e, table))
      | None \<Rightarrow>
          (case find (\<lambda>u. su_email u = lower email) table of
             None \<Rightarrow> (Inr False, table)
           | Some user \<Rightarrow>
               (Inr True,
                update_first (\<lambda>u. su_email u = lower email)
                  (\<lambda>u. u\<lparr>su_last_login := Some (now env), su_updated_at := now env\<rparr>) table)))"

section \<open>The handlers of \<^verbatim>\<open>src/api/auth.py\<close>\<close>

text \<open>
  A handler returns its response model, or raises; the state of the table is returned
  beside it. The last \<^verbatim>\<open>except Exception\<close> of each handler turns every exception that
  is not an \<open>HTTPException\<close> into the status 500.
\<close>

definition register_error_mapping :: "(string \<times> nat) list" where
  "register_error_mapping =
     [(''USER_EXISTS'', 409), (''INVALID_PASSWORD'', 400), (''INVALID_PARAMETER'', 400),
      (''REGISTRATION_FAILED'', 500), (''INTERNAL_ERROR'', 500)]"

definition internal_error_500 :: "env \<Rightarrow> string \<Rightarrow> failure" where
  "internal_error_500 env message =
     HTTPException 500 (ErrorResponse_dict env (PStr ''INTERNAL_ERROR'') (PStr message) 500) []"

definition register_src ::
  "pydantic \<Rightarrow> cognito_service \<Rightarrow> user_src list \<Rightarrow> env \<Rightarrow> exn option \<Rightarrow> user_registration_request
     \<Rightarrow> (failure + user_registration_response) \<times> user_src list" where
  "register_src pyd cognito_service table env db_error request =
     (case register_user_src cognito_service (rq_email request) (rq_password request)
             (rq_username request) (rq_first_name request) (rq_last_name request) of
        (False, result) \<Rightarrow>
          (let status_code = mapping_get register_error_mapping (dict_get result ''error'') 400
           in (Inl (HTTPException status_code
                      (ErrorResponse_dict env
                         (dict_get_or result ''error'' (PStr ''UNKNOWN_ERROR''))
                         (dict_get_or result ''message'' (PStr ''Registration failed''))
                         status_code) []),
               table))
      | (True, result) \<Rightarrow>
          (let cognito_user_id = dict_get result ''user_sub'';
               (db_result, table') =
                  create_user table env db_error cognito_user_id (rq_email request)
                    (rq_username request) (rq_first_name request) (rq_last_name request)
                    (Some [(''confirmed'', dict_get_or result ''user_confirmed'' (PBool False))])
           in case str_field pyd cognito_user_id of
                Inr user_id \<Rightarrow>
                  (Inr \<lparr>rr_user_id = user_id, rr_email = rq_email request,
                        rr_username = rq_username request, rr_created_at = now env,
                        rr_message = ''User registered successfully''\<rparr>,
                   table')
              | Inl e \<Rightarrow>
                  (Inl (internal_error_500 env
                          ''An unexpected error occurred during registration''),
                   table')))"

definition login_error_mapping :: "(string \<times> nat) list" where
  "login_error_mapping =
     [(''INVALID_CREDENTIALS'', 401), (''USER_NOT_FOUND'', 404), (''USER_NOT_CONFIRMED'', 403),
      (''PASSWORD_RESET_REQUIRED'', 403), (''AUTH_CHALLENGE'', 202), (''AUTH_FAILED'', 401),
      (''INTERNAL_ERROR'', 500)]"

text \<open>What \<^verbatim>\<open>login\<close> returns: the token model, or a \<^verbatim>\<open>JSONResponse\<close> of a given status.\<close>

datatype login_response =
    Tokens auth_token_response
  | JSONResponse nat pydict

definition login_src ::
  "pydantic \<Rightarrow> cognito_service \<Rightarrow> user_src list \<Rightarrow> env \<Rightarrow> exn option \<Rightarrow> user_login_request
     \<Rightarrow> (failure + login_response) \<times> user_src list" where
  "login_src pyd cognito_service table env db_error request =
     (case authenticate_user_src cognito_service (lg_email request) (lg_password request) of
        (False, result) \<Rightarrow>
          (let status_code = mapping_get login_error_mapping (dict_get result ''error'') 401
           in if dict_get result ''error'' = PStr ''AUTH_CHALLENGE'' then
                (Inr (JSONResponse 202
                        [(''challenge'', dict_get result ''challenge''),
                         (''session'', dict_get result ''session''),
                         (''message'', dict_get result ''message'')]),
                 table)
              else
                (Inl (HTTPException status_code
                        (ErrorResponse_dict env
                           (dict_get_or result ''error'' (PStr ''UNKNOWN_ERROR''))
                           (dict_get_or result ''message'' (PStr ''Authentication failed''))
                           status_code) []),
                 table))
      | (True, result) \<Rightarrow>
          (case update_last_login table env db_error (lg_email request) of
             (Inl e, table') \<Rightarrow>
               (Inl (internal_error_500 env ''An unexpected error occurred during login''),
                table')
           | (Inr updated, table') \<Rightarrow>
               (case try_bind (dict_item result ''access_token'') (\<lambda>access_token.
                     try_bind (dict_item result ''id_token'') (\<lambda>id_token.
                     try_bind (dict_item result ''refresh_token'') (\<lambda>refresh_token.
                     try_bind (dict_item result ''expires_in'') (\<lambda>expires_in.
                       AuthTokenResponse pyd access_token id_token refresh_token expires_in
                         (dict_get_or result ''token_type'' (PStr ''Bearer''))))))
                of Inr response \<Rightarrow> (Inr (Tokens response), table')
                 | Inl e \<Rightarrow>
                     (Inl (internal_error_500 env
                             ''An unexpected error occurred during login''),
                      table'))))"

definition refresh_error_mapping :: "(string \<times> nat) list" where
  "refresh_error_mapping =
     [(''INVALID_REFRESH_TOKEN'', 401), (''REFRESH_FAILED'', 400), (''INTERNAL_ERROR'', 500)]"

definition refresh_token_src ::
  "pydantic \<Rightarrow> cognito_service \<Rightarrow> env \<Rightarrow> string \<Rightarrow> failure + auth_token_response" where
  "refresh_token_src pyd cognito_service env request_refresh_token =
     (case refresh_tokens_src cognito_service request_refresh_token of
        (False, result) \<Rightarrow>
          (let status_code = mapping_get refresh_error_mapping (dict_get result ''error'') 400
           in Inl (HTTPException status_code
                     (ErrorResponse_dict env
                        (dict_get_or result ''error'' (PStr ''UNKNOWN_ERROR''))
                        (dict_get_or result ''message'' (PStr ''Token refresh failed''))
                        status_code) []))
      | (True, result) \<Rightarrow>
          (case try_bind (dict_item result ''access_token'') (\<lambda>access_token.
                try_bind (dict_item result ''id_token'') (\<lambda>id_token.
                try_bind (dict_item result ''expires_in'') (\<lambda>expires_in.
                  AuthTokenResponse pyd access_token id_token (PStr request_refresh_token)
                    expires_in (dict_get_or result ''token_type'' (PStr ''Bearer'')))))
           of Inr response \<Rightarrow> Inr response
            | Inl e \<Rightarrow>
                Inl (internal_error_500 env
                       ''An unexpected error occurred during token refresh'')))"

section \<open>The error taxonomy and sample environments\<close>

text \<open>
  The codes of the domain taxonomy, as the gateway of \<^verbatim>\<open>src/services\<close> writes them, and
  the code a gateway result carries under its key \<^verbatim>\<open>error\<close>.
\<close>

definition taxonomy :: "string list" where
  "taxonomy =
     [''USER_EXISTS'', ''INVALID_PASSWORD'', ''INVALID_PARAMETER'', ''REGISTRATION_FAILED'',
      ''INVALID_CREDENTIALS'', ''USER_NOT_FOUND'', ''USER_NOT_CONFIRMED'',
      ''PASSWORD_RESET_REQUIRED'', ''AUTH_FAILED'', ''INVALID_REFRESH_TOKEN'',
      ''REFRESH_FAILED'', ''INTERNAL_ERROR'']"

definition error_code :: "bool \<times> pydict \<Rightarrow> pyval" where
  "error_code r = dict_get (snd r) ''error''"

definition in_taxonomy :: "pyval \<Rightarrow> bool" where
  "in_taxonomy v = (case v of PStr c \<Rightarrow> c \<in> set taxonomy | _ \<Rightarrow> False)"

text \<open>A provider that raises \<open>e\<close> at every call, and one that answers every call with \<open>r\<close>.\<close>

definition client_raising :: "exn \<Rightarrow> cognito_client" where
  "client_raising e =
     \<lparr>sign_up = (\<lambda>params. Inl e), initiate_auth = (\<lambda>params. Inl e),
      get_user = (\<lambda>token. Inl e)\<rparr>"

definition client_returning :: "pydict \<Rightarrow> cognito_client" where
  "client_returning r =
     \<lparr>sign_up = (\<lambda>params. Inr r), initiate_auth = (\<lambda>params. Inr r),
      get_user = (\<lambda>token. Inr r)\<rparr>"

definition service_with :: "cognito_client \<Rightarrow> string option \<Rightarrow> cognito_service" where
  "service_with c secret =
     \<lparr>client = c, user_pool_id = ''pool-1'', client_id = ''client-1'', client_secret = secret\<rparr>"

section \<open>The tables of \<^verbatim>\<open>backend/app/models/user.py\<close>\<close>

text \<open>
  \<^verbatim>\<open>class User\<close> (fields prefixed \<open>u_\<close>) and \<^verbatim>\<open>class UserProfile\<close> (fields prefixed
  \<open>p_\<close>). The database is the pair of tables. A \<^verbatim>\<open>float\<close> is only stored and returned,
  never computed with; it is a \<open>real\<close> here.

  A commit that inserts a row checks the constraints the models declare: the primary key
  and every \<^verbatim>\<open>unique=True\<close> column must be new, and \<^verbatim>\<open>user_profiles.user_id\<close> must
  name a row of \<^verbatim>\<open>users\<close>. A violation raises \<open>IntegrityError\<close> and leaves the tables as
  they were. Other failures of the database (a lost connection, a column length) are outside
  the model.
\<close>

datatype fitness_level = Beginner | Intermediate | Advanced

record user =
  u_id :: string
  u_cognito_id :: string
  u_email :: string
  u_username :: string
  u_first_name :: "string option"
  u_last_name :: "string option"
  u_created_at :: nat
  u_updated_at :: nat
  u_last_login :: "nat option"
  u_is_active :: bool

record user_profile =
  p_id :: string
  p_user_id :: string
  p_fitness_level :: "fitness_level option"
  p_goals :: "string list option"
  p_equipment :: "string list option"
  p_has_completed_onboarding :: bool
  p_age :: "int option"
  p_height_cm :: "real option"
  p_weight_kg :: "real option"
  p_preferred_workout_time :: "string option"
  p_injury_notes :: "string option"
  p_created_at :: nat
  p_updated_at :: nat

record db =
  users :: "user list"
  user_profiles :: "user_profile list"

definition insert_user :: "db \<Rightarrow> user \<Rightarrow> exn + db" where
  "insert_user d u =
     (if list_ex (\<lambda>r. u_id r = u_id u) (users d) then
        Inl (IntegrityError ''duplicate key value violates unique constraint users_pkey'')
      else if list_ex (\<lambda>r. u_cognito_id r = u_cognito_id u) (users d) then
        Inl (IntegrityError
               ''duplicate key value violates unique constraint ix_users_cognito_id'')
      else if list_ex (\<lambda>r. u_email r = u_email u) (users d) then
        Inl (IntegrityError ''duplicate key value violates unique constraint ix_users_email'')
      else if list_ex (\<lambda>r. u_username r = u_username u) (users d) then
        Inl (IntegrityError
               ''duplicate key value violates unique constraint ix_users_username'')
      else Inr (d\<lparr>users := users d @ [u]\<rparr>))"

definition insert_profile :: "db \<Rightarrow> user_profile \<Rightarrow> exn + db" where
  "insert_profile d p =
     (if list_ex (\<lambda>r. p_id r = p_id p) (user_profiles d) then
        Inl (IntegrityError
               ''duplicate key value violates unique constraint user_profiles_pkey'')
      else if list_ex (\<lambda>r. p_user_id r = p_user_id p) (user_profiles d) then
        Inl (IntegrityError
               ''duplicate key value violates unique constraint user_profiles_user_id_key'')
      else if \<not> list_ex (\<lambda>r. u_id r = p_user_id p) (users d) then
        Inl (IntegrityError
               ''insert on table user_profiles violates foreign key constraint'')
      else Inr (d\<lparr>user_profiles := user_profiles d @ [p]\<rparr>))"

text \<open>\<^verbatim>\<open>User(cognito_id=..., email=..., ...)\<close> and \<^verbatim>\<open>UserProfile(user_id=...)\<close> with the
  defaults of the models.\<close>

definition new_user ::
  "env \<Rightarrow> string \<Rightarrow> string \<Rightarrow> string \<Rightarrow> string option \<Rightarrow> string option \<Rightarrow> user" where
  "new_user env cognito_id email username first_name last_name =
     \<lparr>u_id = new_user_id env, u_cognito_id = cognito_id, u_email = email,
      u_username = username, u_first_name = first_name, u_last_name = last_name,
      u_created_at = now env, u_updated_at = now env, u_last_login = None,
      u_is_active = True\<rparr>"

definition new_profile :: "env \<Rightarrow> string \<Rightarrow> user_profile" where
  "new_profile env user_id =
     \<lparr>p_id = new_profile_id env, p_user_id = user_id, p_fitness_level = None, p_goals = None,
      p_equipment = None, p_has_completed_onboarding = False, p_age = None,
      p_height_cm = None, p_weight_kg = None, p_preferred_workout_time = None,
      p_injury_notes = None, p_created_at = now env, p_updated_at = now env\<rparr>"

text \<open>\<^verbatim>\<open>result.scalar_one_or_none()\<close> on the rows a \<^verbatim>\<open>select\<close> found.\<close>

fun scalar_one_or_none :: "'a list \<Rightarrow> exn + 'a option" where
  "scalar_one_or_none [] = Inr None"
| "scalar_one_or_none [x] = Inr (Some x)"
| "scalar_one_or_none (x # y # zs) = Inl MultipleResultsFound"

text \<open>
  \<^verbatim>\<open>select(User).where(User.email == v)\<close> and
  \<^verbatim>\<open>select(User).where(User.cognito_id == v)\<close> for a Python value \<open>v\<close>: a row matches
  when its column holds that text; \<^verbatim>\<open>None\<close> matches no row, the columns being
  \<^verbatim>\<open>nullable=False\<close>.
\<close>

definition select_users_by_email :: "db \<Rightarrow> pyval \<Rightarrow> user list" where
  "select_users_by_email d v = filter (\<lambda>r. PStr (u_email r) = v) (users d)"

definition select_users_by_cognito_id :: "db \<Rightarrow> pyval \<Rightarrow> user list" where
  "select_users_by_cognito_id d v = filter (\<lambda>r. PStr (u_cognito_id r) = v) (users d)"

text \<open>\<^verbatim>\<open>user.profile\<close>, loaded through the relationship of the two tables.\<close>

definition profile_of :: "db \<Rightarrow> user \<Rightarrow> user_profile option" where
  "profile_of d u = find (\<lambda>p. p_user_id p = u_id u) (user_profiles d)"

text \<open>
  The names bound at module level in \<^verbatim>\<open>backend/app/api/v1/auth.py\<close>: its imports
  (lines 1 to 18) and its own assignments and functions. Reading a name that is not among
  them raises \<open>NameError\<close>.
\<close>

definition auth_module_names :: "string list" where
  "auth_module_names =
     [''APIRouter'', ''HTTPException'', ''status'', ''Depends'', ''AsyncSession'', ''select'',
      ''Optional'', ''logging'', ''UserRegistrationRequest'', ''UserLoginRequest'',
      ''TokenRefreshRequest'', ''AuthTokenResponse'', ''UserRegistrationResponse'',
      ''GoogleAuthRequest'', ''User'', ''UserProfile'', ''get_async_session'',
      ''CognitoService'', ''get_current_user'', ''logger'', ''router'', ''cognito_service'',
      ''register'', ''login'', ''google_auth'', ''refresh_token'']"

definition global_name :: "string list \<Rightarrow> string \<Rightarrow> exn + unit" where
  "global_name names n = (if n \<in> set names then Inr () else Inl (NameError n))"

section \<open>The handlers of \<^verbatim>\<open>backend/app/api/v1/auth.py\<close>\<close>

definition http_500 :: "string \<Rightarrow> failure" where
  "http_500 message = HTTPException 500 (PStr message) []"

definition register_app ::
  "cognito_service \<Rightarrow> db \<Rightarrow> env \<Rightarrow> user_registration_request
     \<Rightarrow> (failure + user_registration_response) \<times> db" where
  "register_app cognito_service session env request =
     (case register_user_app cognito_service (rq_email request) (rq_password request)
             (rq_username request) (rq_first_name request) (rq_last_name request) of
        (False, result) \<Rightarrow>
          (Inl (HTTPException 400
                  (dict_get_or result ''message'' (PStr ''Registration failed'')) []),
           session)
      | (True, result) \<Rightarrow>
          (case try_bind (dict_item result ''user_sub'') as_str of
             Inl e \<Rightarrow> (Inl (http_500 ''An error occurred during registration''), session)
           | Inr user_sub \<Rightarrow>
               (let user = new_user env user_sub (rq_email request) (rq_username request)
                             (rq_first_name request) (rq_last_name request)
                in case insert_user session user of
                     Inl e \<Rightarrow>
                       (Inl (http_500 ''An error occurred during registration''), session)
                   | Inr session1 \<Rightarrow>
                       (case insert_profile session1 (new_profile env (u_id user)) of
                          Inl e \<Rightarrow>
                            (Inl (http_500 ''An error occurred during registration''),
                             session1)
                        | Inr session2 \<Rightarrow>
                            (Inr \<lparr>rr_user_id = u_id user, rr_email = u_email user,
                                  rr_username = u_username user,
                                  rr_created_at = u_created_at user,
                                  rr_message = ''User registered successfully''\<rparr>,
                             session2)))))"

text \<open>
  \<^verbatim>\<open>login\<close>. The assignment \<^verbatim>\<open>user.last_login = datetime.utcnow()\<close> reads the global
  name \<^verbatim>\<open>datetime\<close> before anything is written.
\<close>

definition login_app ::
  "pydantic \<Rightarrow> cognito_service \<Rightarrow> db \<Rightarrow> env \<Rightarrow> user_login_request
     \<Rightarrow> (failure + auth_token_response) \<times> db" where
  "login_app pyd cognito_service session env request =
     (case authenticate_user_app cognito_service (lg_email request) (lg_password request) of
        (False, result) \<Rightarrow>
          (Inl (HTTPException 401
                  (dict_get_or result ''message'' (PStr ''Authentication failed'')) []),
           session)
      | (True, result) \<Rightarrow>
          (case scalar_one_or_none (select_users_by_email session (PStr (lg_email request))) of
             Inl e \<Rightarrow> (Inl (http_500 ''An error occurred during login''), session)
           | Inr None \<Rightarrow>
               (case AuthTokenResponse_kwargs pyd result of
                  Inr response \<Rightarrow> (Inr response, session)
                | Inl e \<Rightarrow> (Inl (http_500 ''An error occurred during login''), session))
           | Inr (Some user) \<Rightarrow>
               (case global_name auth_module_names ''datetime'' of
                  Inl e \<Rightarrow> (Inl (http_500 ''An error occurred during login''), session)
                | Inr u \<Rightarrow>
                    (let session1 =
                           session\<lparr>users :=
                             update_first (\<lambda>r. u_id r = u_id user)
                               (\<lambda>r. r\<lparr>u_last_login := Some (now env),
                                      u_updated_at := now env\<rparr>)
                               (users session)\<rparr>
                     in case AuthTokenResponse_kwargs pyd result of
                          Inr response \<Rightarrow> (Inr response, session1)
                        | Inl e \<Rightarrow>
                            (Inl (http_500 ''An error occurred during login''), session1)))))"

definition refresh_token_app ::
  "pydantic \<Rightarrow> cognito_service \<Rightarrow> string \<Rightarrow> failure + auth_token_response" where
  "refresh_token_app pyd cognito_service request_refresh_token =
     (case refresh_tokens_app cognito_service request_refresh_token of
        (False, result) \<Rightarrow>
          Inl (HTTPException 401
                 (dict_get_or result ''message'' (PStr ''Token refresh failed'')) [])
      | (True, result) \<Rightarrow>
          (case AuthTokenResponse_kwargs pyd result of
             Inr response \<Rightarrow> Inr response
           | Inl e \<Rightarrow> Inl (http_500 ''An error occurred during token refresh'')))"

text \<open>
  \<^verbatim>\<open>authenticate_with_google\<close> of the backend gateway. \<open>verify_oauth2_token\<close> is Google's
  library call with the request object and the configured client identifier applied: it
  returns the claims of the token or raises.
\<close>

definition google_auth_params :: "cognito_service \<Rightarrow> pyval \<Rightarrow> string \<Rightarrow> pydict" where
  "google_auth_params self email google_id_token =
     [(''ClientId'', PStr (client_id self)),
      (''AuthFlow'', PStr ''CUSTOM_AUTH''),
      (''AuthParameters'',
         PDict [(''USERNAME'', email), (''CHALLENGE_NAME'', PStr ''GOOGLE_AUTH''),
                (''GOOGLE_TOKEN'', PStr google_id_token)])]"

definition authenticate_with_google ::
  "cognito_service \<Rightarrow> (string \<Rightarrow> exn + pydict) \<Rightarrow> string \<Rightarrow> bool \<times> pydict" where
  "authenticate_with_google self verify_oauth2_token google_id_token =
     (case try_bind (verify_oauth2_token google_id_token) (\<lambda>idinfo.
           try_bind (dict_item idinfo ''email'') (\<lambda>email.
           try_bind (initiate_auth (client self) (google_auth_params self email google_id_token))
             (\<lambda>response.
           try_bind (dict_item response ''AuthenticationResult'') (\<lambda>auth_result.
           try_bind (dict_item idinfo ''sub'') (\<lambda>sub.
           try_bind (val_item auth_result ''AccessToken'') (\<lambda>access_token.
           try_bind (val_item auth_result ''IdToken'') (\<lambda>id_token.
           try_bind (val_item auth_result ''RefreshToken'') (\<lambda>refresh_token.
           try_bind (val_item auth_result ''ExpiresIn'') (\<lambda>expires_in.
           try_bind (val_item auth_result ''TokenType'') (\<lambda>token_type.
             Inr [(''email'', email),
                  (''given_name'', dict_get_or idinfo ''given_name'' (PStr [])),
                  (''family_name'', dict_get_or idinfo ''family_name'' (PStr [])),
                  (''user_sub'', sub),
                  (''tokens'',
                     PDict [(''access_token'', access_token),
                            (''id_token'', id_token),
                            (''refresh_token'', refresh_token),
                            (''expires_in'', expires_in),
                            (''token_type'', token_type)])]))))))))))
      of Inr result \<Rightarrow> (True, result)
       | Inl e \<Rightarrow>
           (False, [(''error'', PStr ''GOOGLE_AUTH_FAILED''), (''message'', PStr (exn_str e))]))"

text \<open>A nullable text column takes a text or \<^verbatim>\<open>None\<close>.\<close>

fun as_opt_str :: "pyval \<Rightarrow> exn + string option" where
  "as_opt_str PNone = Inr None"
| "as_opt_str (PStr s) = Inr (Some s)"
| "as_opt_str v = Inl (ValueError ''str type expected'')"

text \<open>
  \<^verbatim>\<open>google_auth\<close>. Building the row needs \<^verbatim>\<open>result['user_sub']\<close> and a text
  \<^verbatim>\<open>email\<close> (for \<^verbatim>\<open>email.split('@')[0]\<close>); a value the columns cannot hold makes the
  commit raise. Each of these ends in the last \<^verbatim>\<open>except\<close> with nothing written.
\<close>

definition google_auth ::
  "pydantic \<Rightarrow> cognito_service \<Rightarrow> (string \<Rightarrow> exn + pydict) \<Rightarrow> db \<Rightarrow> env \<Rightarrow> string
     \<Rightarrow> (failure + auth_token_response) \<times> db" where
  "google_auth pyd cognito_service verify_oauth2_token session env google_id_token =
     (case authenticate_with_google cognito_service verify_oauth2_token google_id_token of
        (False, result) \<Rightarrow>
          (Inl (HTTPException 401
                  (dict_get_or result ''message'' (PStr ''Google authentication failed'')) []),
           session)
      | (True, result) \<Rightarrow>
          (let email = dict_get result ''email'';
               tokens = try_bind (dict_item result ''tokens'') (\<lambda>t.
                          case t of PDict d \<Rightarrow> AuthTokenResponse_kwargs pyd d
                          | _ \<Rightarrow> Inl (OtherException ''TypeError''))
           in case scalar_one_or_none (select_users_by_email session email) of
                Inl e \<Rightarrow> (Inl (http_500 ''An error occurred during Google authentication''),
                           session)
              | Inr (Some user) \<Rightarrow>
                  (case tokens of
                     Inr response \<Rightarrow> (Inr response, session)
                   | Inl e \<Rightarrow>
                       (Inl (http_500 ''An error occurred during Google authentication''),
                        session))
              | Inr None \<Rightarrow>
                  (case try_bind (dict_item result ''user_sub'') (\<lambda>user_sub.
                        try_bind (as_str user_sub) (\<lambda>cognito_id.
                        try_bind (as_str email) (\<lambda>email_text.
                        try_bind (as_opt_str (dict_get result ''given_name'')) (\<lambda>first_name.
                        try_bind (as_opt_str (dict_get result ''family_name'')) (\<lambda>last_name.
                        try_bind
                          (insert_user session
                             (new_user env cognito_id email_text (before_at email_text)
                                first_name last_name))
                          (\<lambda>session1. Inr session1))))))
                   of Inl e \<Rightarrow>
                        (Inl (http_500 ''An error occurred during Google authentication''),
                         session)
                    | Inr session1 \<Rightarrow>
                        (case insert_profile session1 (new_profile env (new_user_id env)) of
                           Inl e \<Rightarrow>
                             (Inl (http_500
                                     ''An error occurred during Google authentication''),
                              session1)
                         | Inr session2 \<Rightarrow>
                             (case tokens of
                                Inr response \<Rightarrow> (Inr response, session2)
                              | Inl e \<Rightarrow>
                                  (Inl (http_500
                                          ''An error occurred during Google authentication''),
                                   session2))))))"

section \<open>The token verifier of \<^verbatim>\<open>backend/app/core/security.py\<close>\<close>

text \<open>\<^verbatim>\<open>for attr in v\<close>: what iterating over a Python value yields.\<close>

fun iter_values :: "pyval \<Rightarrow> exn + pyval list" where
  "iter_values (PList xs) = Inr xs"
| "iter_values (PDict d) = Inr (map (\<lambda>kv. PStr (fst kv)) d)"
| "iter_values (PStr s) = Inr (map (\<lambda>c. PStr [c]) s)"
| "iter_values v = Inl (OtherException ''TypeError'')"

text \<open>\<^verbatim>\<open>d[k] = v\<close>: a present key keeps its place, a new key goes last.\<close>

definition dict_set :: "pydict \<Rightarrow> string \<Rightarrow> pyval \<Rightarrow> pydict" where
  "dict_set d k v =
     (if map_of d k = None then d @ [(k, v)]
      else map (\<lambda>kv. if fst kv = k then (k, v) else kv) d)"

text \<open>
  The loop \<^verbatim>\<open>for attr in response['UserAttributes']: user_attributes[attr['Name']] =
  attr['Value']\<close>; the right-hand side is evaluated first. The provider names attributes by
  texts; a name of another type is refused here.
\<close>

fun collect_attributes :: "pyval list \<Rightarrow> pydict \<Rightarrow> exn + pydict" where
  "collect_attributes [] user_attributes = Inr user_attributes"
| "collect_attributes (attr # rest) user_attributes =
     try_bind (val_item attr ''Value'') (\<lambda>v.
     try_bind (val_item attr ''Name'') (\<lambda>n.
     try_bind (as_str n) (\<lambda>k.
       collect_attributes rest (dict_set user_attributes k v))))"

definition verify_token :: "cognito_service \<Rightarrow> string \<Rightarrow> failure + pydict" where
  "verify_token self token =
     (case try_bind (get_user (client self) token) (\<lambda>response.
           try_bind (dict_item response ''UserAttributes'') (\<lambda>attrs.
           try_bind (iter_values attrs) (\<lambda>attr_list.
           try_bind (collect_attributes attr_list []) (\<lambda>user_attributes.
           try_bind (dict_item response ''Username'') (\<lambda>username.
             Inr [(''username'', username),
                  (''attributes'', PDict user_attributes),
                  (''sub'', dict_get user_attributes ''sub'')])))))
      of Inr user_info \<Rightarrow> Inr user_info
       | Inl (ClientError c m opn) \<Rightarrow>
           Inl (HTTPException 401 (PStr ''Invalid authentication credentials'') [])
       | Inl e \<Rightarrow> Inl (Uncaught e))"

definition get_current_user :: "cognito_service \<Rightarrow> string \<Rightarrow> failure + pydict" where
  "get_current_user cognito_auth token =
     (case verify_token cognito_auth token of
        Inr user_info \<Rightarrow> Inr user_info
      | Inl e \<Rightarrow>
          Inl (HTTPException 401 (PStr ''Could not validate credentials'')
                 [(''WWW-Authenticate'', ''Bearer'')]))"

section \<open>Onboarding: \<^verbatim>\<open>backend/app/api/v1/onboarding.py\<close>\<close>

text \<open>
  \<^verbatim>\<open>UserProfileUpdateRequest\<close>: every field is optional, and
  \<^verbatim>\<open>model_dump(exclude_unset=True)\<close> keeps the fields the request body named, also those
  it set to \<^verbatim>\<open>null\<close>. A field is therefore \<open>Unset\<close> or \<open>Given v\<close> with \<open>v\<close> a value or
  \<open>None\<close>. Fields are prefixed \<open>r_\<close>; those of \<^verbatim>\<open>UserProfileResponse\<close> are prefixed \<open>pr_\<close>.
\<close>

datatype 'a field = Unset | Given "'a option"

record user_profile_update_request =
  r_fitness_level :: "fitness_level field"
  r_goals :: "string list field"
  r_equipment :: "string list field"
  r_age :: "int field"
  r_height_cm :: "real field"
  r_weight_kg :: "real field"
  r_preferred_workout_time :: "string field"
  r_injury_notes :: "string field"

record user_profile_response =
  pr_id :: string
  pr_email :: string
  pr_username :: string
  pr_first_name :: "string option"
  pr_last_name :: "string option"
  pr_fitness_level :: "fitness_level option"
  pr_goals :: "string list option"
  pr_equipment :: "string list option"
  pr_has_completed_onboarding :: bool
  pr_age :: "int option"
  pr_height_cm :: "real option"
  pr_weight_kg :: "real option"
  pr_preferred_workout_time :: "string option"
  pr_injury_notes :: "string option"
  pr_created_at :: nat
  pr_updated_at :: nat

text \<open>\<^verbatim>\<open>setattr(user.profile, field, value)\<close> for one field of \<^verbatim>\<open>update_data\<close>.\<close>

definition set_field :: "'a field \<Rightarrow> 'a option \<Rightarrow> 'a option" where
  "set_field f old = (case f of Unset \<Rightarrow> old | Given v \<Rightarrow> v)"

definition apply_update_data :: "user_profile_update_request \<Rightarrow> user_profile \<Rightarrow> user_profile" where
  "apply_update_data request profile =
     profile
       \<lparr>p_fitness_level := set_field (r_fitness_level request) (p_fitness_level profile),
        p_goals := set_field (r_goals request) (p_goals profile),
        p_equipment := set_field (r_equipment request) (p_equipment profile),
        p_age := set_field (r_age request) (p_age profile),
        p_height_cm := set_field (r_height_cm request) (p_height_cm profile),
        p_weight_kg := set_field (r_weight_kg request) (p_weight_kg profile),
        p_preferred_workout_time :=
          set_field (r_preferred_workout_time request) (p_preferred_workout_time profile),
        p_injury_notes := set_field (r_injury_notes request) (p_injury_notes profile)\<rparr>"

text \<open>
  The last commit writes the profile back; the column \<^verbatim>\<open>updated_at\<close> takes the clock
  reading when the row has changed (\<^verbatim>\<open>onupdate\<close>).
\<close>

definition commit_profile :: "env \<Rightarrow> user_profile \<Rightarrow> user_profile \<Rightarrow> user_profile" where
  "commit_profile env old changed =
     (if changed = old then old else changed\<lparr>p_updated_at := now env\<rparr>)"

definition UserProfileResponse :: "user \<Rightarrow> user_profile \<Rightarrow> user_profile_response" where
  "UserProfileResponse user profile =
     \<lparr>pr_id = u_id user, pr_email = u_email user, pr_username = u_username user,
      pr_first_name = u_first_name user, pr_last_name = u_last_name user,
      pr_fitness_level = p_fitness_level profile, pr_goals = p_goals profile,
      pr_equipment = p_equipment profile,
      pr_has_completed_onboarding = p_has_completed_onboarding profile,
      pr_age = p_age profile, pr_height_cm = p_height_cm profile,
      pr_weight_kg = p_weight_kg profile,
      pr_preferred_workout_time = p_preferred_workout_time profile,
      pr_injury_notes = p_injury_notes profile,
      pr_created_at = u_created_at user, pr_updated_at = u_updated_at user\<rparr>"

text \<open>
  \<^verbatim>\<open>if not user.profile:\<close> creates and commits an empty profile; the value is the
  profile to update and the tables after that commit.
\<close>

definition ensure_profile :: "db \<Rightarrow> env \<Rightarrow> user \<Rightarrow> exn + user_profile \<times> db" where
  "ensure_profile session env user =
     (case profile_of session user of
        Some profile \<Rightarrow> Inr (profile, session)
      | None \<Rightarrow>
          try_bind (insert_profile session (new_profile env (u_id user)))
            (\<lambda>session1. Inr (new_profile env (u_id user), session1)))"

definition complete_onboarding ::
  "user_profile_update_request \<Rightarrow> pydict \<Rightarrow> db \<Rightarrow> env
     \<Rightarrow> (failure + user_profile_response) \<times> db" where
  "complete_onboarding request current_user session env =
     (case try_bind (dict_item current_user ''sub'') (\<lambda>cognito_id.
             scalar_one_or_none (select_users_by_cognito_id session cognito_id)) of
        Inl e \<Rightarrow> (Inl (Uncaught e), session)
      | Inr None \<Rightarrow> (Inl (HTTPException 404 (PStr ''User not found'') []), session)
      | Inr (Some user) \<Rightarrow>
          (case ensure_profile session env user of
             Inl e \<Rightarrow> (Inl (Uncaught e), session)
           | Inr (profile, session1) \<Rightarrow>
               (let updated =
                      commit_profile env profile
                        ((apply_update_data request profile)
                           \<lparr>p_has_completed_onboarding := True\<rparr>);
                    session2 =
                      session1\<lparr>user_profiles :=
                        update_first (\<lambda>p. p_id p = p_id profile) (\<lambda>p. updated)
                          (user_profiles session1)\<rparr>
                in (Inr (UserProfileResponse user updated), session2))))"

section \<open>Reading a request sent to the provider\<close>

text \<open>
  What a request names as its user and what it carries as secret hash:
  \<^verbatim>\<open>Username\<close> and \<^verbatim>\<open>SecretHash\<close> of a \<^verbatim>\<open>sign_up\<close> request,
  \<^verbatim>\<open>AuthParameters.USERNAME\<close> and \<^verbatim>\<open>AuthParameters.SECRET_HASH\<close> of an
  \<^verbatim>\<open>initiate_auth\<close> request. \<open>None\<close> says that the request has no such entry.
\<close>

definition auth_parameters :: "pydict \<Rightarrow> pydict" where
  "auth_parameters params =
     (case map_of params ''AuthParameters'' of Some (PDict d) \<Rightarrow> d | _ \<Rightarrow> [])"

definition request_username :: "pydict \<Rightarrow> pyval option" where
  "request_username params =
     (case map_of params ''Username'' of
        Some u \<Rightarrow> Some u
      | None \<Rightarrow> map_of (auth_parameters params) ''USERNAME'')"

definition request_secret_hash :: "pydict \<Rightarrow> pyval option" where
  "request_secret_hash params =
     (case map_of params ''SecretHash'' of
        Some h \<Rightarrow> Some h
      | None \<Rightarrow> map_of (auth_parameters params) ''SECRET_HASH'')"

text \<open>A provider that answers every authentication with a full token set.\<close>

definition sample_auth_result :: pydict where
  "sample_auth_result =
     [(''AuthenticationResult'',
         PDict [(''AccessToken'', PStr ''access-1''), (''IdToken'', PStr ''id-1''),
                (''RefreshToken'', PStr ''refresh-1''), (''ExpiresIn'', PInt 3600),
                (''TokenType'', PStr ''Bearer'')])]"

definition sample_bundle :: "string \<Rightarrow> auth_token_response" where
  "sample_bundle rt =
     \<lparr>tk_access_token = ''access-1'', tk_id_token = ''id-1'', tk_refresh_token = rt,
      tk_expires_in = 3600, tk_token_type = ''Bearer''\<rparr>"

section \<open>Sample data\<close>

text \<open>
  A clock reading with fresh identifiers, a database holding the user Ann with her profile,
  a provider answer that demands a challenge, and a provider answer to a registration.
\<close>

definition sample_env :: env where
  "sample_env = \<lparr>now = 1000, new_user_id = ''user-2'', new_profile_id = ''profile-2''\<rparr>"

definition ann :: user where
  "ann =
     \<lparr>u_id = ''user-1'', u_cognito_id = ''sub-ann'', u_email = ''ann@example.com'',
      u_username = ''ann'', u_first_name = Some ''Ann'', u_last_name = None,
      u_created_at = 10, u_updated_at = 10, u_last_login = None, u_is_active = True\<rparr>"

definition ann_profile :: user_profile where
  "ann_profile =
     \<lparr>p_id = ''profile-1'', p_user_id = ''user-1'', p_fitness_level = Some Beginner,
      p_goals = Some [''strength'', ''mobility''], p_equipment = Some [''dumbbells''],
      p_has_completed_onboarding = False, p_age = None, p_height_cm = None,
      p_weight_kg = None, p_preferred_workout_time = None, p_injury_notes = None,
      p_created_at = 10, p_updated_at = 10\<rparr>"

definition sample_db :: db where
  "sample_db = \<lparr>users = [ann], user_profiles = [ann_profile]\<rparr>"

definition sample_challenge :: pydict where
  "sample_challenge = [(''ChallengeName'', PStr ''SMS_MFA''), (''Session'', PStr ''session-1'')]"

definition sample_sign_up :: pydict where
  "sample_sign_up = [(''UserSub'', PStr ''sub-2''), (''UserConfirmed'', PBool False)]"

definition ann_login :: user_login_request where
  "ann_login = \<lparr>lg_email = ''ann@example.com'', lg_password = ''Valid123!''\<rparr>"

text \<open>A registration by another person who picks the user name Ann already holds.\<close>

definition second_ann :: user_registration_request where
  "second_ann =
     \<lparr>rq_email = ''ann.other@example.com'', rq_password = ''Valid123!'', rq_username = ''ann'',
      rq_first_name = None, rq_last_name = None\<rparr>"

text \<open>Google's answer for a token whose email is written with capitals.\<close>

definition google_claims :: "string \<Rightarrow> exn + pydict" where
  "google_claims google_id_token =
     Inr [(''email'', PStr ''Ann@Example.com''), (''sub'', PStr ''google-1''),
          (''given_name'', PStr ''Ann'')]"


definition zed_response :: pydict where
  "zed_response =
     [(''Username'', PStr ''zed''),
      (''UserAttributes'',
         PList [PDict [(''Name'', PStr ''sub''), (''Value'', PStr ''sub-zed'')],
                PDict [(''Name'', PStr ''email''), (''Value'', PStr ''zed@example.com'')]])]"

definition ann_response :: pydict where
  "ann_response =
     [(''Username'', PStr ''ann''),
      (''UserAttributes'',
         PList [PDict [(''Name'', PStr ''sub''), (''Value'', PStr ''sub-ann'')],
                PDict [(''Name'', PStr ''email''), (''Value'', PStr ''ann@example.com'')]])]"

text \<open>
  The constraints the two models declare, as a property of the tables: primary keys and
  unique columns hold no value twice, and every profile belongs to a row of \<^verbatim>\<open>users\<close>.
\<close>

definition consistent :: "db \<Rightarrow> bool" where
  "consistent d =
     (distinct (map u_id (users d)) \<and> distinct (map u_cognito_id (users d))
      \<and> distinct (map u_email (users d)) \<and> distinct (map u_username (users d))
      \<and> distinct (map p_id (user_profiles d)) \<and> distinct (map p_user_id (user_profiles d))
      \<and> list_all (\<lambda>p. list_ex (\<lambda>u. u_id u = p_user_id p) (users d)) (user_profiles d))"

text \<open>What the verifier hands to the handler for Ann's token, and a request body
  \<^verbatim>\<open>{"age": 25}\<close>.\<close>

definition ann_info :: pydict where
  "ann_info =
     [(''username'', PStr ''ann''),
      (''attributes'',
         PDict [(''sub'', PStr ''sub-ann''), (''email'', PStr ''ann@example.com'')]),
      (''sub'', PStr ''sub-ann'')]"

definition zed_info :: pydict where
  "zed_info =
     [(''username'', PStr ''zed''),
      (''attributes'',
         PDict [(''sub'', PStr ''sub-zed''), (''email'', PStr ''zed@example.com'')]),
      (''sub'', PStr ''sub-zed'')]"

definition age_only :: user_profile_update_request where
  "age_only =
     \<lparr>r_fitness_level = Unset, r_goals = Unset, r_equipment = Unset, r_age = Given (Some 25),
      r_height_cm = Unset, r_weight_kg = Unset, r_preferred_workout_time = Unset,
      r_injury_notes = Unset\<rparr>"

definition later_env :: env where
  "later_env = \<lparr>now = 2000, new_user_id = ''user-3'', new_profile_id = ''profile-3''\<rparr>"

section \<open>The bearer token of a request\<close>





section \<open>Sample field validators\<close>

text \<open>
  One pair of field validators for the sample evaluations: a \<^verbatim>\<open>str\<close> field takes a
  text; an \<^verbatim>\<open>int\<close> field takes an integer, a float without fractional part, a
  boolean (as 1 or 0) or a text of decimal digits. The handlers and the theorems are stated
  for every pair.
\<close>

definition digit_value :: "char \<Rightarrow> int" where
  "digit_value c = (case map_of (zip digits [0, 1, 2, 3, 4, 5, 6, 7, 8, 9]) c of
                      Some d \<Rightarrow> d | None \<Rightarrow> 0)"

definition decimal_value :: "string \<Rightarrow> int" where
  "decimal_value s = foldl (\<lambda>n c. 10 * n + digit_value c) 0 s"

fun sample_int :: "pyval \<Rightarrow> exn + int" where
  "sample_int (PInt i) = Inr i"
| "sample_int (PFloat r) =
     (if r = of_int \<lfloor>r\<rfloor> then Inr \<lfloor>r\<rfloor>
      else Inl (ValueError ''Input should be a valid integer''))"
| "sample_int (PBool b) = Inr (if b then 1 else 0)"
| "sample_int (PStr s) =
     (if s \<noteq> [] \<and> list_all (\<lambda>c. c \<in> set digits) s then Inr (decimal_value s)
      else Inl (ValueError ''Input should be a valid integer''))"
| "sample_int v = Inl (ValueError ''Input should be a valid integer'')"

definition sample_pydantic :: pydantic where
  "sample_pydantic = \<lparr>str_field = as_str, int_field = sample_int\<rparr>"

text \<open>A provider answer whose expiry is a text of digits.\<close>

definition text_expiry_result :: pydict where
  "text_expiry_result =
     [(''AuthenticationResult'',
         PDict [(''AccessToken'', PStr ''access-1''), (''IdToken'', PStr ''id-1''),
                (''RefreshToken'', PStr ''refresh-1''), (''ExpiresIn'', PStr ''3600''),
                (''TokenType'', PStr ''Bearer'')])]"

section \<open>Provider errors and the taxonomy\<close>

lemma register_except_src_in_taxonomy: "in_taxonomy (error_code (register_except_src e))"
  by (cases e)
    (simp_all add: in_taxonomy_def error_code_def dict_get_def taxonomy_def internal_error_src_def)

lemma authenticate_except_src_in_taxonomy: "in_taxonomy (error_code (authenticate_except_src e))"
  by (cases e)
    (simp_all add: in_taxonomy_def error_code_def dict_get_def taxonomy_def internal_error_src_def)

lemma refresh_except_src_in_taxonomy: "in_taxonomy (error_code (refresh_except_src e))"
  by (cases e)
    (simp_all add: in_taxonomy_def error_code_def dict_get_def taxonomy_def internal_error_src_def)

text \<open>
  In the gateway of \<^verbatim>\<open>src/services\<close> a call that the provider answers with an exception
  ends in the \<^verbatim>\<open>except\<close> chain, whose code is a member of the taxonomy.
\<close>

lemma register_user_src_provider_error:
  assumes "sign_up (client self)
             (sign_up_params self email password username first_name last_name) = Inl e"
  shows "register_user_src self email password username first_name last_name
           = register_except_src e"
  using assms by (simp add: register_user_src_def try_bind_def)

lemma authenticate_user_src_provider_error:
  assumes "initiate_auth (client self) (auth_params self email password) = Inl e"
  shows "authenticate_user_src self email password = authenticate_except_src e"
  using assms by (simp add: authenticate_user_src_def)

lemma refresh_tokens_src_provider_error:
  assumes "initiate_auth (client self) (refresh_params self refresh_token) = Inl e"
  shows "refresh_tokens_src self refresh_token = refresh_except_src e"
  using assms by (simp add: refresh_tokens_src_def try_bind_def)

text \<open>
  C3. The gateway of \<^verbatim>\<open>backend/app/services/cognito_service.py\<close> returns the provider's
  own code: when the provider rejects a registration with
  \<^verbatim>\<open>UsernameExistsException\<close>, the result of \<^verbatim>\<open>register_user\<close> carries that code and
  the provider's message unchanged, and the code is no member of the taxonomy.
\<close>

theorem register_user_app_provider_code_verbatim:
  "register_user_app
     (service_with
        (client_raising
           (ClientError ''UsernameExistsException''
              ''An account with the given email already exists.'' ''SignUp''))
        None)
     ''ann@example.com'' ''Valid123!'' ''ann'' None None
   = (False, [(''error'', PStr ''UsernameExistsException''),
              (''message'', PStr ''An account with the given email already exists.'')])
   \<and> \<not> in_taxonomy (PStr ''UsernameExistsException'')"
  by (simp add: register_user_app_def service_with_def client_raising_def try_bind_def
      in_taxonomy_def taxonomy_def)

section \<open>The secret hash\<close>

lemma truthy_get_secret_hash:
  "truthy (get_secret_hash self u) = truthy_opt (client_secret self)"
  by (simp add: get_secret_hash_def Let_def)

text \<open>
  The client secret changes a request by the hash entry alone, so an operation without a
  secret sends the same request less that entry and goes on as with one.
\<close>

lemma secret_adds_only_the_hash:
  "sign_up_params self email password username first_name last_name
   = sign_up_params (self\<lparr>client_secret := None\<rparr>) email password username first_name last_name
     @ (if truthy_opt (client_secret self)
        then [(''SecretHash'', PHmacB64 (the (client_secret self)) (email @ client_id self))]
        else [])"
  "auth_parameters (auth_params self email password)
   = auth_parameters (auth_params (self\<lparr>client_secret := None\<rparr>) email password)
     @ (if truthy_opt (client_secret self)
        then [(''SECRET_HASH'', PHmacB64 (the (client_secret self)) (email @ client_id self))]
        else [])"
  "auth_parameters (refresh_params self refresh_token)
   = auth_parameters (refresh_params (self\<lparr>client_secret := None\<rparr>) refresh_token)
     @ (if truthy_opt (client_secret self)
        then [(''SECRET_HASH'',
               PHmacB64 (the (client_secret self)) (refresh_token @ client_id self))]
        else [])"
  by (simp_all add: sign_up_params_def auth_params_def refresh_params_def auth_parameters_def
      get_secret_hash_def Let_def)

text \<open>
  With a client secret configured, the requests of \<^verbatim>\<open>register_user\<close> and
  \<^verbatim>\<open>authenticate_user\<close> name the email as user and carry the keyed hash of that user
  name followed by the client identifier. With no client secret (absent or empty) none of
  the three requests carries a secret hash.
\<close>

lemma secret_hash_of_requests:
  "(truthy_opt (client_secret self) \<longrightarrow>
      request_username (sign_up_params self email password username first_name last_name)
        = Some (PStr email)
    \<and> request_secret_hash
        (sign_up_params self email password username first_name last_name)
        = Some (PHmacB64 (the (client_secret self)) (email @ client_id self))
    \<and> request_username (auth_params self email password) = Some (PStr email)
    \<and> request_secret_hash (auth_params self email password)
        = Some (PHmacB64 (the (client_secret self)) (email @ client_id self)))
   \<and> (\<not> truthy_opt (client_secret self) \<longrightarrow>
      request_secret_hash (sign_up_params self email password username first_name last_name)
        = None
    \<and> request_secret_hash (auth_params self email password) = None
    \<and> request_secret_hash (refresh_params self refresh_token) = None)"
  by (simp add: request_username_def request_secret_hash_def
      auth_parameters_def sign_up_params_def auth_params_def refresh_params_def
      get_secret_hash_def Let_def)

text \<open>
  Whatever the refresh token and the configured secret are, the hash that
  \<^verbatim>\<open>refresh_tokens\<close> attaches is computed from the refresh token in the place of the
  user name, and the request names no user.
\<close>

lemma refresh_params_hash:
  assumes "truthy_opt (client_secret self)"
  shows "request_secret_hash (refresh_params self refresh_token)
         = Some (PHmacB64 (the (client_secret self)) (refresh_token @ client_id self))"
    and "request_username (refresh_params self refresh_token) = None"
  using assms
  by (simp_all add: request_username_def request_secret_hash_def auth_parameters_def
      refresh_params_def get_secret_hash_def Let_def)

text \<open>
  C4. With the secret \<^verbatim>\<open>s3cret\<close> and the client identifier \<^verbatim>\<open>client-1\<close>, the login of
  \<^verbatim>\<open>ann@example.com\<close> carries the keyed hash of \<^verbatim>\<open>ann@example.com\<close> followed by
  \<^verbatim>\<open>client-1\<close>. The refresh of her token \<^verbatim>\<open>refresh-1\<close> carries the keyed hash of
  \<^verbatim>\<open>refresh-1\<close> followed by \<^verbatim>\<open>client-1\<close>: it is keyed as the claim says, but its
  message is not the user name followed by the client identifier.
\<close>

theorem refresh_hashes_the_refresh_token:
  "request_secret_hash
     (auth_params (service_with (client_returning sample_auth_result) (Some ''s3cret''))
        ''ann@example.com'' ''Valid123!'')
     = Some (PHmacB64 ''s3cret'' (''ann@example.com'' @ ''client-1''))
   \<and> request_secret_hash
       (refresh_params (service_with (client_returning sample_auth_result) (Some ''s3cret''))
          ''refresh-1'')
     = Some (PHmacB64 ''s3cret'' (''refresh-1'' @ ''client-1''))
   \<and> request_secret_hash
       (refresh_params (service_with (client_returning sample_auth_result) (Some ''s3cret''))
          ''refresh-1'')
     \<noteq> Some (PHmacB64 ''s3cret'' (''ann@example.com'' @ ''client-1''))"
  by (simp add: request_secret_hash_def auth_parameters_def auth_params_def refresh_params_def
      service_with_def get_secret_hash_def Let_def)

section \<open>Refreshing tokens\<close>

lemma try_bind_Inr: "try_bind m f = Inr y \<longleftrightarrow> (\<exists>x. m = Inr x \<and> f x = Inr y)"
  by (cases m) (simp_all add: try_bind_def)

lemma dict_item_Inr: "dict_item d k = Inr v \<longleftrightarrow> map_of d k = Some v"
  by (simp add: dict_item_def split: option.splits)

lemma val_item_Inr: "val_item a k = Inr v \<longleftrightarrow> (\<exists>d. a = PDict d \<and> map_of d k = Some v)"
  by (cases a) (simp_all add: dict_item_Inr)

lemma AuthTokenResponse_Inr:
  "AuthTokenResponse pyd a i r e t = Inr response \<longleftrightarrow>
     str_field pyd a = Inr (tk_access_token response)
     \<and> str_field pyd i = Inr (tk_id_token response)
     \<and> str_field pyd r = Inr (tk_refresh_token response)
     \<and> int_field pyd e = Inr (tk_expires_in response)
     \<and> str_field pyd t = Inr (tk_token_type response)"
  by (cases response) (auto simp: AuthTokenResponse_def try_bind_Inr)

lemma refresh_except_src_False: "fst (refresh_except_src e) = False"
  by (cases e) (simp_all add: internal_error_src_def)

lemma refresh_tokens_src_True:
  assumes "refresh_tokens_src service rt = (True, result)"
  shows "\<exists>resp ar a i e t.
           initiate_auth (client service) (refresh_params service rt) = Inr resp
         \<and> map_of resp ''AuthenticationResult'' = Some (PDict ar)
         \<and> map_of ar ''AccessToken'' = Some a \<and> map_of ar ''IdToken'' = Some i
         \<and> map_of ar ''ExpiresIn'' = Some e \<and> map_of ar ''TokenType'' = Some t
         \<and> result = [(''access_token'', a), (''id_token'', i), (''expires_in'', e),
                      (''token_type'', t)]"
proof -
  let ?block = "try_bind (initiate_auth (client service) (refresh_params service rt))
             (\<lambda>response.
                try_bind (dict_item response ''AuthenticationResult'') (\<lambda>auth_result.
                try_bind (val_item auth_result ''AccessToken'') (\<lambda>access_token.
                try_bind (val_item auth_result ''IdToken'') (\<lambda>id_token.
                try_bind (val_item auth_result ''ExpiresIn'') (\<lambda>expires_in.
                try_bind (val_item auth_result ''TokenType'') (\<lambda>token_type.
                  Inr [(''access_token'', access_token),
                       (''id_token'', id_token),
                       (''expires_in'', expires_in),
                       (''token_type'', token_type)]))))))"
  have "?block = Inr result"
  proof (cases ?block)
    case (Inl e)
    with assms have "refresh_except_src e = (True, result)"
      by (simp add: refresh_tokens_src_def)
    with refresh_except_src_False [of e] show ?thesis by simp
  next
    case (Inr r)
    with assms show ?thesis by (simp add: refresh_tokens_src_def)
  qed
  then show ?thesis
    by (auto simp: try_bind_Inr dict_item_Inr val_item_Inr)
qed

lemma service_except_app_False: "fst (service_except_app e) = False"
  by (cases e) simp_all

lemma refresh_tokens_app_True:
  assumes "refresh_tokens_app service rt = (True, result)"
  shows "\<exists>resp ar a i e t.
           initiate_auth (client service) (refresh_params service rt) = Inr resp
         \<and> map_of resp ''AuthenticationResult'' = Some (PDict ar)
         \<and> map_of ar ''AccessToken'' = Some a \<and> map_of ar ''IdToken'' = Some i
         \<and> map_of ar ''ExpiresIn'' = Some e \<and> map_of ar ''TokenType'' = Some t
         \<and> result = [(''access_token'', a), (''id_token'', i), (''refresh_token'', PStr rt),
                      (''expires_in'', e), (''token_type'', t)]"
proof -
  let ?block = "try_bind (initiate_auth (client service) (refresh_params service rt))
             (\<lambda>response.
                try_bind (dict_item response ''AuthenticationResult'') (\<lambda>auth_result.
                try_bind (val_item auth_result ''AccessToken'') (\<lambda>access_token.
                try_bind (val_item auth_result ''IdToken'') (\<lambda>id_token.
                try_bind (val_item auth_result ''ExpiresIn'') (\<lambda>expires_in.
                try_bind (val_item auth_result ''TokenType'') (\<lambda>token_type.
                  Inr [(''access_token'', access_token),
                       (''id_token'', id_token),
                       (''refresh_token'', PStr rt),
                       (''expires_in'', expires_in),
                       (''token_type'', token_type)]))))))"
  have "?block = Inr result"
  proof (cases ?block)
    case (Inl e)
    with assms have "service_except_app e = (True, result)"
      by (simp add: refresh_tokens_app_def)
    with service_except_app_False [of e] show ?thesis by simp
  next
    case (Inr r)
    with assms show ?thesis by (simp add: refresh_tokens_app_def)
  qed
  then show ?thesis
    by (auto simp: try_bind_Inr dict_item_Inr val_item_Inr)
qed

text \<open>
  What a bundle returned by either refresh handler is made of: the refresh token is the
  request's, validated as a \<^verbatim>\<open>str\<close> field; every other field is the entry of the
  provider's \<^verbatim>\<open>AuthenticationResult\<close>, validated as the field's type.
\<close>

lemma refresh_token_src_Inr:
  assumes "refresh_token_src pyd service env rt = Inr response"
  shows "str_field pyd (PStr rt) = Inr (tk_refresh_token response)
       \<and> (\<exists>resp ar a i e t.
             initiate_auth (client service) (refresh_params service rt) = Inr resp
           \<and> map_of resp ''AuthenticationResult'' = Some (PDict ar)
           \<and> map_of ar ''AccessToken'' = Some a
           \<and> str_field pyd a = Inr (tk_access_token response)
           \<and> map_of ar ''IdToken'' = Some i
           \<and> str_field pyd i = Inr (tk_id_token response)
           \<and> map_of ar ''ExpiresIn'' = Some e
           \<and> int_field pyd e = Inr (tk_expires_in response)
           \<and> map_of ar ''TokenType'' = Some t
           \<and> str_field pyd t = Inr (tk_token_type response))"
proof (cases "refresh_tokens_src service rt")
  case (Pair success result)
  show ?thesis
  proof (cases success)
    case False
    with Pair assms show ?thesis by (simp add: refresh_token_src_def Let_def)
  next
    case True
    with Pair obtain resp ar a i e t where
      call: "initiate_auth (client service) (refresh_params service rt) = Inr resp"
      and ar: "map_of resp ''AuthenticationResult'' = Some (PDict ar)"
      and fields: "map_of ar ''AccessToken'' = Some a" "map_of ar ''IdToken'' = Some i"
        "map_of ar ''ExpiresIn'' = Some e" "map_of ar ''TokenType'' = Some t"
      and result: "result = [(''access_token'', a), (''id_token'', i), (''expires_in'', e),
                      (''token_type'', t)]"
      using refresh_tokens_src_True [of service rt result] by auto
    from assms Pair True result
    have "AuthTokenResponse pyd a i (PStr rt) e t = Inr response"
      by (simp add: refresh_token_src_def try_bind_def dict_item_def dict_get_or_def
          split: sum.splits)
    then have "str_field pyd a = Inr (tk_access_token response)"
      "str_field pyd i = Inr (tk_id_token response)"
      "str_field pyd (PStr rt) = Inr (tk_refresh_token response)"
      "int_field pyd e = Inr (tk_expires_in response)"
      "str_field pyd t = Inr (tk_token_type response)"
      by (simp_all add: AuthTokenResponse_Inr)
    with call ar fields show ?thesis by auto
  qed
qed

lemma refresh_token_app_Inr:
  assumes "refresh_token_app pyd service rt = Inr response"
  shows "str_field pyd (PStr rt) = Inr (tk_refresh_token response)
       \<and> (\<exists>resp ar a i e t.
             initiate_auth (client service) (refresh_params service rt) = Inr resp
           \<and> map_of resp ''AuthenticationResult'' = Some (PDict ar)
           \<and> map_of ar ''AccessToken'' = Some a
           \<and> str_field pyd a = Inr (tk_access_token response)
           \<and> map_of ar ''IdToken'' = Some i
           \<and> str_field pyd i = Inr (tk_id_token response)
           \<and> map_of ar ''ExpiresIn'' = Some e
           \<and> int_field pyd e = Inr (tk_expires_in response)
           \<and> map_of ar ''TokenType'' = Some t
           \<and> str_field pyd t = Inr (tk_token_type response))"
proof (cases "refresh_tokens_app service rt")
  case (Pair success result)
  show ?thesis
  proof (cases success)
    case False
    with Pair assms show ?thesis by (simp add: refresh_token_app_def)
  next
    case True
    with Pair obtain resp ar a i e t where
      call: "initiate_auth (client service) (refresh_params service rt) = Inr resp"
      and ar: "map_of resp ''AuthenticationResult'' = Some (PDict ar)"
      and fields: "map_of ar ''AccessToken'' = Some a" "map_of ar ''IdToken'' = Some i"
        "map_of ar ''ExpiresIn'' = Some e" "map_of ar ''TokenType'' = Some t"
      and result: "result = [(''access_token'', a), (''id_token'', i),
                      (''refresh_token'', PStr rt), (''expires_in'', e), (''token_type'', t)]"
      using refresh_tokens_app_True [of service rt result] by auto
    from assms Pair True result
    have "AuthTokenResponse pyd a i (PStr rt) e t = Inr response"
      by (simp add: refresh_token_app_def AuthTokenResponse_kwargs_def AuthTokenResponse_def
          dict_get_def split: sum.splits)
    then have "str_field pyd a = Inr (tk_access_token response)"
      "str_field pyd i = Inr (tk_id_token response)"
      "str_field pyd (PStr rt) = Inr (tk_refresh_token response)"
      "int_field pyd e = Inr (tk_expires_in response)"
      "str_field pyd t = Inr (tk_token_type response)"
      by (simp_all add: AuthTokenResponse_Inr)
    with call ar fields show ?thesis by auto
  qed
qed

text \<open>
  C7. Let the library return a text unchanged when it validates it as a \<^verbatim>\<open>str\<close>
  field. Whenever the refresh handler of either generation returns a token bundle, the
  bundle's refresh token is the text the request supplied, character for character, and its
  access token, id token, expiry and token type are the entries of the
  \<^verbatim>\<open>AuthenticationResult\<close> the provider returned for this refresh request, each as the
  library validated it for its field.
\<close>

theorem refresh_round_trip:
  assumes "str_field pyd (PStr rt) = Inr rt"
  shows "(refresh_token_src pyd service env rt = Inr response
          \<or> refresh_token_app pyd service rt = Inr response)
   \<longrightarrow> tk_refresh_token response = rt
       \<and> (\<exists>resp ar a i e t.
             initiate_auth (client service) (refresh_params service rt) = Inr resp
           \<and> map_of resp ''AuthenticationResult'' = Some (PDict ar)
           \<and> map_of ar ''AccessToken'' = Some a
           \<and> str_field pyd a = Inr (tk_access_token response)
           \<and> map_of ar ''IdToken'' = Some i
           \<and> str_field pyd i = Inr (tk_id_token response)
           \<and> map_of ar ''ExpiresIn'' = Some e
           \<and> int_field pyd e = Inr (tk_expires_in response)
           \<and> map_of ar ''TokenType'' = Some t
           \<and> str_field pyd t = Inr (tk_token_type response))"
proof (intro impI)
  assume "refresh_token_src pyd service env rt = Inr response
          \<or> refresh_token_app pyd service rt = Inr response"
  then have r: "str_field pyd (PStr rt) = Inr (tk_refresh_token response)
       \<and> (\<exists>resp ar a i e t.
             initiate_auth (client service) (refresh_params service rt) = Inr resp
           \<and> map_of resp ''AuthenticationResult'' = Some (PDict ar)
           \<and> map_of ar ''AccessToken'' = Some a
           \<and> str_field pyd a = Inr (tk_access_token response)
           \<and> map_of ar ''IdToken'' = Some i
           \<and> str_field pyd i = Inr (tk_id_token response)
           \<and> map_of ar ''ExpiresIn'' = Some e
           \<and> int_field pyd e = Inr (tk_expires_in response)
           \<and> map_of ar ''TokenType'' = Some t
           \<and> str_field pyd t = Inr (tk_token_type response))"
    using refresh_token_src_Inr [of pyd service env rt response]
      refresh_token_app_Inr [of pyd service rt response] by blast
  with assms have "tk_refresh_token response = rt" by simp
  with r show "tk_refresh_token response = rt
       \<and> (\<exists>resp ar a i e t.
             initiate_auth (client service) (refresh_params service rt) = Inr resp
           \<and> map_of resp ''AuthenticationResult'' = Some (PDict ar)
           \<and> map_of ar ''AccessToken'' = Some a
           \<and> str_field pyd a = Inr (tk_access_token response)
           \<and> map_of ar ''IdToken'' = Some i
           \<and> str_field pyd i = Inr (tk_id_token response)
           \<and> map_of ar ''ExpiresIn'' = Some e
           \<and> int_field pyd e = Inr (tk_expires_in response)
           \<and> map_of ar ''TokenType'' = Some t
           \<and> str_field pyd t = Inr (tk_token_type response))"
    by blast
qed

lemma refresh_token_src_sample:
  "refresh_token_src sample_pydantic
     (service_with (client_returning text_expiry_result) None) sample_env ''refresh-0''
   = Inr (sample_bundle ''refresh-0'')"
  by (simp add: refresh_token_src_def refresh_tokens_src_def service_with_def
      client_returning_def text_expiry_result_def try_bind_def dict_item_def dict_get_or_def
      AuthTokenResponse_def sample_bundle_def refresh_params_def sample_pydantic_def
      decimal_value_def digit_value_def digits_def)

lemma refresh_token_app_sample:
  "refresh_token_app sample_pydantic
     (service_with (client_returning text_expiry_result) None) ''refresh-0''
   = Inr (sample_bundle ''refresh-0'')"
  by (simp add: refresh_token_app_def refresh_tokens_app_def service_with_def
      client_returning_def text_expiry_result_def try_bind_def dict_item_def dict_get_or_def
      dict_get_def AuthTokenResponse_kwargs_def sample_bundle_def refresh_params_def
      sample_pydantic_def decimal_value_def digit_value_def digits_def)

text \<open>
  A refresh that succeeds in both generations although the provider sent the expiry as
  the text \<^verbatim>\<open>3600\<close>, and what the theorem gives for it.
\<close>

theorem refresh_round_trip_witness:
  "str_field sample_pydantic (PStr ''refresh-0'') = Inr ''refresh-0''
   \<and> refresh_token_src sample_pydantic
       (service_with (client_returning text_expiry_result) None) sample_env ''refresh-0''
     = Inr (sample_bundle ''refresh-0'')
   \<and> refresh_token_app sample_pydantic
       (service_with (client_returning text_expiry_result) None) ''refresh-0''
     = Inr (sample_bundle ''refresh-0'')
   \<and> tk_refresh_token (sample_bundle ''refresh-0'') = ''refresh-0''
   \<and> tk_expires_in (sample_bundle ''refresh-0'') = 3600"
proof -
  have s: "str_field sample_pydantic (PStr ''refresh-0'') = Inr ''refresh-0''"
    by (simp add: sample_pydantic_def)
  from refresh_round_trip [OF s, of "service_with (client_returning text_expiry_result) None"
      sample_env "sample_bundle ''refresh-0''"]
    refresh_token_src_sample
  have "tk_refresh_token (sample_bundle ''refresh-0'') = ''refresh-0''" by simp
  with s refresh_token_src_sample refresh_token_app_sample show ?thesis
    by (simp add: sample_bundle_def)
qed

section \<open>Login\<close>

text \<open>
  In \<^verbatim>\<open>src/api/auth.py\<close> a challenge demanded by the provider leaves \<^verbatim>\<open>login\<close> as a
  \<^verbatim>\<open>JSONResponse\<close> of status 202 with the challenge and the session; the table is not
  touched.
\<close>

lemma login_src_challenge:
  assumes "initiate_auth (client service)
             (auth_params service (lg_email request) (lg_password request)) = Inr response"
    and "truthy (dict_get response ''ChallengeName'')"
  shows "login_src pyd service table env db_error request
         = (Inr (JSONResponse 202
                   [(''challenge'', dict_get response ''ChallengeName''),
                    (''session'', dict_get response ''Session''),
                    (''message'', PStr ''Authentication challenge required'')]),
            table)"
  using assms by (simp add: login_src_def authenticate_user_src_def dict_get_def)

text \<open>
  C1. In \<^verbatim>\<open>backend/app/api/v1/auth.py\<close> the same challenge ends \<^verbatim>\<open>login\<close> with the
  error status 401: the gateway reports the challenge with \<^verbatim>\<open>success = False\<close>, and the
  handler raises for every such result without reading the challenge or the session.
\<close>

theorem login_app_challenge_is_401:
  "login_app pyd (service_with (client_returning sample_challenge) None) sample_db sample_env
     ann_login
   = (Inl (HTTPException 401 (PStr ''Authentication failed'') []), sample_db)"
  by (simp add: login_app_def authenticate_user_app_def service_with_def client_returning_def
      sample_challenge_def dict_get_def dict_get_or_def ann_login_def)

text \<open>
  In \<^verbatim>\<open>src/api/auth.py\<close> the token bundle is returned whether or not the update of
  \<^verbatim>\<open>last_login\<close> worked: a missing row and an error of the database session are both
  absorbed by \<^verbatim>\<open>update_last_login\<close>.
\<close>

lemma login_src_ignores_update_failure:
  assumes "authenticate_user_src service (lg_email request) (lg_password request)
           = (True, result)"
    and "result = [(''access_token'', a), (''id_token'', i), (''refresh_token'', r),
                   (''expires_in'', e), (''token_type'', t)]"
    and "AuthTokenResponse pyd a i r e t = Inr bundle"
    and "case db_error of None \<Rightarrow> True | Some err \<Rightarrow> is_sqlalchemy_error err"
  shows "fst (login_src pyd service table env db_error request) = Inr (Tokens bundle)"
  using assms
  by (auto simp: login_src_def update_last_login_def try_bind_def dict_item_def
      dict_get_or_def split: option.splits prod.splits)

text \<open>
  C8. In \<^verbatim>\<open>backend/app/api/v1/auth.py\<close> a login that the provider accepts, for an email
  that has a row in \<^verbatim>\<open>users\<close>, ends with the status 500 and writes nothing: the handler
  reads the name \<^verbatim>\<open>datetime\<close>, which the module never imports.
\<close>

theorem login_app_known_user_is_500:
  "login_app pyd (service_with (client_returning sample_auth_result) None) sample_db
     sample_env ann_login
   = (Inl (HTTPException 500 (PStr ''An error occurred during login'') []), sample_db)"
  by (simp add: login_app_def authenticate_user_app_def service_with_def client_returning_def
      sample_auth_result_def dict_get_def auth_tokens_def try_bind_def dict_item_def
      ann_login_def sample_db_def ann_def select_users_by_email_def global_name_def
      auth_module_names_def http_500_def)

section \<open>Registration\<close>

text \<open>
  In \<^verbatim>\<open>src/api/auth.py\<close> the registration response is the same whatever the database
  session did in \<^verbatim>\<open>create_user\<close>.
\<close>

lemma register_src_ignores_local_failure:
  assumes "register_user_src service (rq_email request) (rq_password request)
             (rq_username request) (rq_first_name request) (rq_last_name request)
           = (True, result)"
    and "str_field pyd (dict_get result ''user_sub'') = Inr user_sub"
  shows "fst (register_src pyd service table env db_error request)
         = Inr \<lparr>rr_user_id = user_sub, rr_email = rq_email request,
                rr_username = rq_username request, rr_created_at = now env,
                rr_message = ''User registered successfully''\<rparr>"
  using assms by (simp add: register_src_def Let_def split: prod.splits)

text \<open>
  C2. In \<^verbatim>\<open>backend/app/api/v1/auth.py\<close> a registration that the provider accepts, with
  a user name that another row of \<^verbatim>\<open>users\<close> holds already, ends with the status 500;
  the tables stay as they were.
\<close>

theorem register_app_local_failure_is_500:
  "register_app (service_with (client_returning sample_sign_up) None) sample_db sample_env
     second_ann
   = (Inl (HTTPException 500 (PStr ''An error occurred during registration'') []), sample_db)"
  by (simp add: register_app_def register_user_app_def service_with_def client_returning_def
      sample_sign_up_def try_bind_def dict_item_def dict_get_or_def second_ann_def
      sample_db_def ann_def insert_user_def new_user_def sample_env_def http_500_def)

section \<open>Lower case\<close>

text \<open>
  The request model lower-cases an accepted user name and refuses one with a blank or
  punctuation; \<^verbatim>\<open>create_user\<close> of \<^verbatim>\<open>src/database/user_repository.py\<close> stores email
  and user name in lower case.
\<close>

lemma validate_username_examples:
  "validate_username ''Valid_User-1'' = Inr ''valid_user-1''"
  "validate_username ''bad username!''
   = Inl (ValueError ''Username can only contain letters, numbers, underscores, and hyphens'')"
  by (simp_all add: validate_username_def isalnum_def lower_def lower_chr_def
      upper_letters_def lower_letters_def digits_def)

lemma create_user_stores_lower_case:
  "\<exists>u. snd (create_user table env None cognito_id email username first_name last_name metadata)
        = table @ [u] \<and> su_email u = lower email \<and> su_username u = lower username"
  by (simp add: create_user_def Let_def)

text \<open>
  C5. In \<^verbatim>\<open>backend/app/api/v1/auth.py\<close> the federated login compares and stores the
  email as Google wrote it: for the email \<^verbatim>\<open>Ann@Example.com\<close> the row of
  \<^verbatim>\<open>ann@example.com\<close> is not found, and a second row is written with the email
  \<^verbatim>\<open>Ann@Example.com\<close> and the user name \<^verbatim>\<open>Ann\<close>.
\<close>

theorem google_auth_keeps_capitals:
  "snd (google_auth pyd (service_with (client_returning sample_auth_result) None)
          google_claims sample_db sample_env ''google-token'')
   = \<lparr>users =
        [ann,
         \<lparr>u_id = ''user-2'', u_cognito_id = ''google-1'', u_email = ''Ann@Example.com'',
          u_username = ''Ann'', u_first_name = Some ''Ann'', u_last_name = Some [],
          u_created_at = 1000, u_updated_at = 1000, u_last_login = None,
          u_is_active = True\<rparr>],
      user_profiles = [ann_profile, new_profile sample_env ''user-2'']\<rparr>
   \<and> lower ''Ann@Example.com'' = u_email ann"
  by (simp add: google_auth_def authenticate_with_google_def google_claims_def
      service_with_def client_returning_def sample_auth_result_def try_bind_def dict_item_def
      dict_get_def dict_get_or_def google_auth_params_def select_users_by_email_def
      sample_db_def ann_def ann_profile_def insert_user_def insert_profile_def new_user_def
      new_profile_def sample_env_def before_at_def Let_def lower_def lower_chr_def
      upper_letters_def lower_letters_def split: sum.splits)

section \<open>The token verifier\<close>







lemma verified_user_has_sub:
  assumes "get_current_user auth token = Inr current_user"
  shows "dict_item current_user ''sub'' = Inr (dict_get current_user ''sub'')"
proof -
  from assms have "verify_token auth token = Inr current_user"
    by (simp add: get_current_user_def split: sum.splits)
  then have "\<exists>a b c. current_user = [(''username'', a), (''attributes'', b), (''sub'', c)]"
    unfolding verify_token_def
    by (auto simp: try_bind_Inr split: sum.splits exn.splits)
  then show ?thesis by (auto simp: dict_item_def dict_get_def)
qed

text \<open>
  C10. When the token verifies and no row of \<^verbatim>\<open>users\<close> has the token's subject as its
  \<^verbatim>\<open>cognito_id\<close>, \<^verbatim>\<open>complete_onboarding\<close> raises the status 404 with the detail
  \<^verbatim>\<open>User not found\<close> and returns both tables as they were.
\<close>

theorem onboarding_unknown_user_is_404:
  assumes "get_current_user auth token = Inr current_user"
    and "list_all (\<lambda>u. PStr (u_cognito_id u) \<noteq> dict_get current_user ''sub'') (users session)"
  shows "complete_onboarding request current_user session env
         = (Inl (HTTPException 404 (PStr ''User not found'') []), session)"
proof -
  from assms(2) have "select_users_by_cognito_id session (dict_get current_user ''sub'') = []"
    by (auto simp: select_users_by_cognito_id_def filter_empty_conv list_all_iff)
  with verified_user_has_sub [OF assms(1)] show ?thesis
    by (simp add: complete_onboarding_def try_bind_def)
qed

text \<open>Zed's token verifies, the sample tables hold no row for Zed, and nothing is written.\<close>

theorem onboarding_unknown_user_is_404_witness:
  "get_current_user (service_with (client_returning zed_response) None) ''token-zed''
     = Inr zed_info
   \<and> list_all (\<lambda>u. PStr (u_cognito_id u) \<noteq> dict_get zed_info ''sub'') (users sample_db)
   \<and> complete_onboarding age_only zed_info sample_db sample_env
     = (Inl (HTTPException 404 (PStr ''User not found'') []), sample_db)"
proof -
  have v: "get_current_user (service_with (client_returning zed_response) None) ''token-zed''
           = Inr zed_info"
    by (simp add: get_current_user_def verify_token_def service_with_def client_returning_def
        zed_response_def zed_info_def try_bind_def dict_item_def dict_get_def dict_set_def)
  have n: "list_all (\<lambda>u. PStr (u_cognito_id u) \<noteq> dict_get zed_info ''sub'') (users sample_db)"
    by (simp add: sample_db_def ann_def zed_info_def dict_get_def)
  from v n onboarding_unknown_user_is_404 [OF v n] show ?thesis by simp
qed

section \<open>Onboarding\<close>

lemma filter_unique_column:
  assumes "distinct (map f xs)" and "x \<in> set xs"
  shows "filter (\<lambda>r. f r = f x) xs = [x]"
  using assms
proof (induction xs)
  case Nil
  then show ?case by simp
next
  case (Cons a xs)
  show ?case
  proof (cases "a = x")
    case True
    with Cons.prems have "f x \<notin> f ` set xs" by simp
    then have "\<forall>r\<in>set xs. f r \<noteq> f x" by (metis imageI)
    then have "filter (\<lambda>r. f r = f x) xs = []" by (simp add: filter_empty_conv)
    with True show ?thesis by simp
  next
    case False
    with Cons.prems have "x \<in> set xs" by simp
    moreover from this Cons.prems have "f a \<noteq> f x" by (metis distinct.simps(2) imageI list.simps(9) set_map)
    ultimately have "x \<in> set xs" and "f a \<noteq> f x" by simp_all
    with Cons show ?thesis by simp
  qed
qed

lemma unique_column_eq:
  assumes "distinct (map f xs)" and "x \<in> set xs" and "y \<in> set xs" and "f y = f x"
  shows "y = x"
  using assms by (meson distinct_map inj_onD)

lemma find_update_first:
  assumes "find Q xs = Some x" and "\<forall>y\<in>set xs. P y \<longleftrightarrow> y = x" and "Q z"
  shows "find Q (update_first P (\<lambda>y. z) xs) = Some z"
  using assms
proof (induction xs)
  case Nil
  then show ?case by simp
next
  case (Cons a xs)
  show ?case
  proof (cases "Q a")
    case True
    with Cons.prems have "a = x" by simp
    with Cons.prems have "P a" by simp
    with \<open>Q z\<close> show ?thesis by simp
  next
    case False
    with Cons.prems have f: "find Q xs = Some x" by simp
    then have "Q x" by (metis find_Some_iff)
    with False have "a \<noteq> x" by auto
    with Cons.prems have "\<not> P a" by simp
    with False Cons.IH [OF f] Cons.prems show ?thesis by simp
  qed
qed

lemma filter_update_first:
  assumes "\<not> R z" and "\<forall>y. P y \<longrightarrow> \<not> R y"
  shows "filter R (update_first P (\<lambda>y. z) xs) = filter R xs"
  using assms by (induction xs) auto

lemma map_update_first:
  assumes "\<forall>y\<in>set xs. P y \<longrightarrow> f y = f z"
  shows "map f (update_first P (\<lambda>y. z) xs) = map f xs"
  using assms by (induction xs) auto

lemma list_all_update_first:
  assumes "list_all Q xs" and "Q z"
  shows "list_all Q (update_first P (\<lambda>y. z) xs)"
  using assms by (induction xs) auto

lemma find_Some_in_set: "find Q xs = Some x \<Longrightarrow> x \<in> set xs \<and> Q x"
  by (metis find_Some_iff nth_mem)

lemma find_append_new:
  assumes "find Q xs = None" and "Q z"
  shows "find Q (xs @ [z]) = Some z"
  using assms by (induction xs) (auto split: if_splits)

lemma ensure_profile_result:
  assumes c: "consistent session"
    and u: "user \<in> set (users session)"
    and fresh: "profile_of session user = None
                \<longrightarrow> \<not> list_ex (\<lambda>p. p_id p = new_profile_id env) (user_profiles session)"
    and base: "base = (case profile_of session user of
                         Some p \<Rightarrow> p | None \<Rightarrow> new_profile env (u_id user))"
  shows "\<exists>session1.
           ensure_profile session env user = Inr (base, session1)
         \<and> consistent session1
         \<and> users session1 = users session
         \<and> find (\<lambda>p. p_user_id p = u_id user) (user_profiles session1) = Some base
         \<and> (\<forall>y\<in>set (user_profiles session1). p_id y = p_id base \<longleftrightarrow> y = base)
         \<and> filter (\<lambda>p. p_id p \<noteq> p_id base) (user_profiles session1)
             = filter (\<lambda>p. p_id p \<noteq> p_id base) (user_profiles session)"
proof (cases "profile_of session user")
  case (Some p)
  with base have b: "base = p" by simp
  from Some have f: "find (\<lambda>p. p_user_id p = u_id user) (user_profiles session) = Some base"
    by (simp add: profile_of_def b)
  then have m: "base \<in> set (user_profiles session)" by (simp add: find_Some_in_set)
  from c have d: "distinct (map p_id (user_profiles session))" by (simp add: consistent_def)
  have "\<forall>y\<in>set (user_profiles session). p_id y = p_id base \<longleftrightarrow> y = base"
    using unique_column_eq [OF d m] by blast
  with Some f b c show ?thesis by (simp add: ensure_profile_def)
next
  case None
  with base have b: "base = new_profile env (u_id user)" by simp
  from None have nf: "find (\<lambda>p. p_user_id p = u_id user) (user_profiles session) = None"
    by (simp add: profile_of_def)
  then have no_owner: "\<not> list_ex (\<lambda>r. p_user_id r = u_id user) (user_profiles session)"
    by (simp add: find_None_iff list_ex_iff)
  from u have owner: "list_ex (\<lambda>r. u_id r = u_id user) (users session)"
    by (auto simp: list_ex_iff)
  from fresh None
  have fresh: "\<not> list_ex (\<lambda>p. p_id p = new_profile_id env) (user_profiles session)"
    by simp
  have ins: "insert_profile session (new_profile env (u_id user))
             = Inr (session\<lparr>user_profiles := user_profiles session @ [new_profile env (u_id user)]\<rparr>)"
    using fresh no_owner owner by (simp add: insert_profile_def new_profile_def)
  have fr: "\<forall>y\<in>set (user_profiles session). p_id y \<noteq> p_id base"
    using fresh by (auto simp: b new_profile_def list_ex_iff)
  have "find (\<lambda>p. p_user_id p = u_id user) (user_profiles session @ [base]) = Some base"
    using nf by (intro find_append_new) (simp_all add: b new_profile_def)
  moreover have "\<forall>y\<in>set (user_profiles session @ [base]). p_id y = p_id base \<longleftrightarrow> y = base"
    using fr by auto
  moreover have "filter (\<lambda>p. p_id p \<noteq> p_id base) (user_profiles session @ [base])
                 = filter (\<lambda>p. p_id p \<noteq> p_id base) (user_profiles session)"
    by simp
  moreover have "consistent (session\<lparr>user_profiles := user_profiles session @ [base]\<rparr>)"
    using c fr no_owner owner
    by (auto simp: consistent_def b new_profile_def list_ex_iff)
  ultimately show ?thesis
    using None ins by (simp add: ensure_profile_def try_bind_def b)
qed

lemma commit_profile_fields:
  "p_id (commit_profile env old ch) = p_id ch"
  "p_user_id (commit_profile env old ch) = p_user_id ch"
  "p_fitness_level (commit_profile env old ch) = p_fitness_level ch"
  "p_goals (commit_profile env old ch) = p_goals ch"
  "p_equipment (commit_profile env old ch) = p_equipment ch"
  "p_has_completed_onboarding (commit_profile env old ch) = p_has_completed_onboarding ch"
  "p_age (commit_profile env old ch) = p_age ch"
  "p_height_cm (commit_profile env old ch) = p_height_cm ch"
  "p_weight_kg (commit_profile env old ch) = p_weight_kg ch"
  "p_preferred_workout_time (commit_profile env old ch) = p_preferred_workout_time ch"
  "p_injury_notes (commit_profile env old ch) = p_injury_notes ch"
  by (simp_all add: commit_profile_def)

lemma set_field_simps:
  "set_field Unset old = old"
  "set_field (Given v) old = v"
  by (simp_all add: set_field_def)

text \<open>
  One call of \<^verbatim>\<open>complete_onboarding\<close> for a verified token whose subject has a row in
  \<^verbatim>\<open>users\<close>: what is returned and what the tables hold afterwards.
\<close>

lemma onboarding_step:
  assumes verified: "get_current_user auth token = Inr current_user"
    and c: "consistent session"
    and u: "user \<in> set (users session)"
    and sub: "dict_get current_user ''sub'' = PStr (u_cognito_id user)"
    and fresh: "profile_of session user = None
                \<longrightarrow> \<not> list_ex (\<lambda>p. p_id p = new_profile_id env) (user_profiles session)"
    and base: "base = (case profile_of session user of
                         Some p \<Rightarrow> p | None \<Rightarrow> new_profile env (u_id user))"
  shows "\<exists>session' profile'.
           complete_onboarding request current_user session env
             = (Inr (UserProfileResponse user profile'), session')
         \<and> consistent session' \<and> users session' = users session
         \<and> profile_of session' user = Some profile'
         \<and> filter (\<lambda>p. p_id p \<noteq> p_id base) (user_profiles session')
             = filter (\<lambda>p. p_id p \<noteq> p_id base) (user_profiles session)
         \<and> p_id profile' = p_id base \<and> p_user_id profile' = u_id user
         \<and> p_has_completed_onboarding profile'
         \<and> (r_fitness_level request = Unset \<longrightarrow> p_fitness_level profile' = p_fitness_level base)
         \<and> (\<forall>v. r_fitness_level request = Given v \<longrightarrow> p_fitness_level profile' = v)
         \<and> (r_goals request = Unset \<longrightarrow> p_goals profile' = p_goals base)
         \<and> (\<forall>v. r_goals request = Given v \<longrightarrow> p_goals profile' = v)
         \<and> (r_equipment request = Unset \<longrightarrow> p_equipment profile' = p_equipment base)
         \<and> (\<forall>v. r_equipment request = Given v \<longrightarrow> p_equipment profile' = v)
         \<and> (r_age request = Unset \<longrightarrow> p_age profile' = p_age base)
         \<and> (\<forall>v. r_age request = Given v \<longrightarrow> p_age profile' = v)
         \<and> (r_height_cm request = Unset \<longrightarrow> p_height_cm profile' = p_height_cm base)
         \<and> (\<forall>v. r_height_cm request = Given v \<longrightarrow> p_height_cm profile' = v)
         \<and> (r_weight_kg request = Unset \<longrightarrow> p_weight_kg profile' = p_weight_kg base)
         \<and> (\<forall>v. r_weight_kg request = Given v \<longrightarrow> p_weight_kg profile' = v)
         \<and> (r_preferred_workout_time request = Unset
              \<longrightarrow> p_preferred_workout_time profile' = p_preferred_workout_time base)
         \<and> (\<forall>v. r_preferred_workout_time request = Given v
              \<longrightarrow> p_preferred_workout_time profile' = v)
         \<and> (r_injury_notes request = Unset \<longrightarrow> p_injury_notes profile' = p_injury_notes base)
         \<and> (\<forall>v. r_injury_notes request = Given v \<longrightarrow> p_injury_notes profile' = v)"
proof -
  define updated where
    "updated = commit_profile env base
                 ((apply_update_data request base)\<lparr>p_has_completed_onboarding := True\<rparr>)"
  from c have "distinct (map u_cognito_id (users session))" by (simp add: consistent_def)
  from filter_unique_column [OF this u]
  have sel: "select_users_by_cognito_id session (dict_get current_user ''sub'') = [user]"
    by (simp add: select_users_by_cognito_id_def sub)
  obtain session1 where
    ens: "ensure_profile session env user = Inr (base, session1)"
    and c1: "consistent session1"
    and us: "users session1 = users session"
    and fnd: "find (\<lambda>p. p_user_id p = u_id user) (user_profiles session1) = Some base"
    and uniq: "\<forall>y\<in>set (user_profiles session1). p_id y = p_id base \<longleftrightarrow> y = base"
    and others: "filter (\<lambda>p. p_id p \<noteq> p_id base) (user_profiles session1)
                 = filter (\<lambda>p. p_id p \<noteq> p_id base) (user_profiles session)"
    using ensure_profile_result [OF c u fresh base] by blast
  define session2 where
    "session2 = session1\<lparr>user_profiles :=
                  update_first (\<lambda>p. p_id p = p_id base) (\<lambda>p. updated) (user_profiles session1)\<rparr>"
  from find_Some_in_set [OF fnd] have owner: "p_user_id base = u_id user" by simp
  have ids: "p_id updated = p_id base" "p_user_id updated = u_id user"
    by (simp_all add: updated_def commit_profile_fields apply_update_data_def owner)
  have run: "complete_onboarding request current_user session env
             = (Inr (UserProfileResponse user updated), session2)"
    using verified_user_has_sub [OF verified] sel ens
    by (simp add: complete_onboarding_def try_bind_def Let_def updated_def session2_def)
  have "find (\<lambda>p. p_user_id p = u_id user)
          (update_first (\<lambda>p. p_id p = p_id base) (\<lambda>p. updated) (user_profiles session1))
        = Some updated"
    using fnd uniq ids(2) by (rule find_update_first)
  then have prof: "profile_of session2 user = Some updated"
    by (simp add: profile_of_def session2_def)
  have "filter (\<lambda>p. p_id p \<noteq> p_id base)
          (update_first (\<lambda>p. p_id p = p_id base) (\<lambda>p. updated) (user_profiles session1))
        = filter (\<lambda>p. p_id p \<noteq> p_id base) (user_profiles session1)"
    by (rule filter_update_first) (simp_all add: ids)
  with others have rest: "filter (\<lambda>p. p_id p \<noteq> p_id base) (user_profiles session2)
                          = filter (\<lambda>p. p_id p \<noteq> p_id base) (user_profiles session)"
    by (simp add: session2_def)
  have flag: "p_has_completed_onboarding updated"
    by (simp add: updated_def commit_profile_fields)
  have fields:
    "p_fitness_level updated = set_field (r_fitness_level request) (p_fitness_level base)"
    "p_goals updated = set_field (r_goals request) (p_goals base)"
    "p_equipment updated = set_field (r_equipment request) (p_equipment base)"
    "p_age updated = set_field (r_age request) (p_age base)"
    "p_height_cm updated = set_field (r_height_cm request) (p_height_cm base)"
    "p_weight_kg updated = set_field (r_weight_kg request) (p_weight_kg base)"
    "p_preferred_workout_time updated
       = set_field (r_preferred_workout_time request) (p_preferred_workout_time base)"
    "p_injury_notes updated = set_field (r_injury_notes request) (p_injury_notes base)"
    by (simp_all add: updated_def commit_profile_fields apply_update_data_def)
  have "map p_id (update_first (\<lambda>p. p_id p = p_id base) (\<lambda>p. updated) (user_profiles session1))
        = map p_id (user_profiles session1)"
    by (rule map_update_first) (simp add: ids)
  moreover
  have "map p_user_id
          (update_first (\<lambda>p. p_id p = p_id base) (\<lambda>p. updated) (user_profiles session1))
        = map p_user_id (user_profiles session1)"
    using uniq by (intro map_update_first) (simp add: ids owner)
  moreover
  have "list_all (\<lambda>p. list_ex (\<lambda>r. u_id r = p_user_id p) (users session1))
          (update_first (\<lambda>p. p_id p = p_id base) (\<lambda>p. updated) (user_profiles session1))"
    using c1 u by (intro list_all_update_first) (auto simp: consistent_def ids us list_ex_iff)
  ultimately have c2: "consistent session2"
    using c1 by (simp add: consistent_def session2_def)
  have "users session2 = users session" by (simp add: session2_def us)
  with run prof rest ids flag fields c2 show ?thesis
    by (intro exI [of _ session2] exI [of _ updated]) (simp add: set_field_simps)
qed


text \<open>Two calls in a row, the second on the tables the first one left.\<close>

lemma onboarding_twice:
  assumes verified: "get_current_user auth token = Inr current_user"
    and c: "consistent session"
    and u: "user \<in> set (users session)"
    and sub: "dict_get current_user ''sub'' = PStr (u_cognito_id user)"
    and fresh: "profile_of session user = None
                \<longrightarrow> \<not> list_ex (\<lambda>p. p_id p = new_profile_id env1) (user_profiles session)"
    and base: "base = (case profile_of session user of
                         Some p \<Rightarrow> p | None \<Rightarrow> new_profile env1 (u_id user))"
    and goals: "r_goals request = Unset" and equipment: "r_equipment request = Unset"
    and age: "r_age request = Given v"
  shows "\<exists>response1 session1 response2 session2 profile2.
           complete_onboarding request current_user session env1 = (Inr response1, session1)
         \<and> complete_onboarding request current_user session1 env2 = (Inr response2, session2)
         \<and> profile_of session2 user = Some profile2
         \<and> p_has_completed_onboarding profile2
         \<and> p_goals profile2 = p_goals base \<and> p_equipment profile2 = p_equipment base
         \<and> p_age profile2 = v"
proof -
  from onboarding_step [OF verified c u sub fresh base, of request]
  obtain session1 profile1 where
    run1: "complete_onboarding request current_user session env1
           = (Inr (UserProfileResponse user profile1), session1)"
    and c1: "consistent session1" and us1: "users session1 = users session"
    and p1: "profile_of session1 user = Some profile1"
    and g1: "p_goals profile1 = p_goals base" and e1: "p_equipment profile1 = p_equipment base"
    using goals equipment by auto
  from u us1 have u1: "user \<in> set (users session1)" by simp
  have fresh1: "profile_of session1 user = None
                \<longrightarrow> \<not> list_ex (\<lambda>p. p_id p = new_profile_id env2) (user_profiles session1)"
    using p1 by simp
  have base1: "profile1 = (case profile_of session1 user of
                             Some p \<Rightarrow> p | None \<Rightarrow> new_profile env2 (u_id user))"
    using p1 by simp
  from onboarding_step [OF verified c1 u1 sub fresh1 base1, of request]
  obtain session2 profile2 where
    "complete_onboarding request current_user session1 env2
       = (Inr (UserProfileResponse user profile2), session2)"
    "profile_of session2 user = Some profile2"
    "p_has_completed_onboarding profile2"
    "p_goals profile2 = p_goals profile1" "p_equipment profile2 = p_equipment profile1"
    "p_age profile2 = v"
    using goals equipment age by auto
  with run1 g1 e1 show ?thesis by auto
qed

text \<open>
  C6. Let the token verify, let the tables satisfy their constraints, and let \<open>user\<close> be
  the row whose \<^verbatim>\<open>cognito_id\<close> is the token's subject; \<open>base\<close> is the user's profile,
  or a new empty one when the user has none (its identifier being new). Then
  \<^verbatim>\<open>complete_onboarding\<close> returns the profile representation; afterwards the user's
  profile (created if it was missing) has \<^verbatim>\<open>has_completed_onboarding\<close> set, every field
  the request left out holds what \<open>base\<close> held, every field the request gave holds the value
  given, the profiles of other users and the table \<^verbatim>\<open>users\<close> are unchanged, and the
  constraints still hold.
\<close>

theorem onboarding_partial_update:
  assumes verified: "get_current_user auth token = Inr current_user"
    and c: "consistent session"
    and u: "user \<in> set (users session)"
    and sub: "dict_get current_user ''sub'' = PStr (u_cognito_id user)"
    and fresh: "profile_of session user = None
                \<longrightarrow> \<not> list_ex (\<lambda>p. p_id p = new_profile_id env) (user_profiles session)"
    and base: "base = (case profile_of session user of
                         Some p \<Rightarrow> p | None \<Rightarrow> new_profile env (u_id user))"
  shows "(\<exists>session' profile'.
           complete_onboarding request current_user session env
             = (Inr (UserProfileResponse user profile'), session')
         \<and> consistent session' \<and> users session' = users session
         \<and> profile_of session' user = Some profile'
         \<and> filter (\<lambda>p. p_id p \<noteq> p_id base) (user_profiles session')
             = filter (\<lambda>p. p_id p \<noteq> p_id base) (user_profiles session)
         \<and> p_id profile' = p_id base \<and> p_user_id profile' = u_id user
         \<and> p_has_completed_onboarding profile'
         \<and> (r_fitness_level request = Unset \<longrightarrow> p_fitness_level profile' = p_fitness_level base)
         \<and> (\<forall>v. r_fitness_level request = Given v \<longrightarrow> p_fitness_level profile' = v)
         \<and> (r_goals request = Unset \<longrightarrow> p_goals profile' = p_goals base)
         \<and> (\<forall>v. r_goals request = Given v \<longrightarrow> p_goals profile' = v)
         \<and> (r_equipment request = Unset \<longrightarrow> p_equipment profile' = p_equipment base)
         \<and> (\<forall>v. r_equipment request = Given v \<longrightarrow> p_equipment profile' = v)
         \<and> (r_age request = Unset \<longrightarrow> p_age profile' = p_age base)
         \<and> (\<forall>v. r_age request = Given v \<longrightarrow> p_age profile' = v)
         \<and> (r_height_cm request = Unset \<longrightarrow> p_height_cm profile' = p_height_cm base)
         \<and> (\<forall>v. r_height_cm request = Given v \<longrightarrow> p_height_cm profile' = v)
         \<and> (r_weight_kg request = Unset \<longrightarrow> p_weight_kg profile' = p_weight_kg base)
         \<and> (\<forall>v. r_weight_kg request = Given v \<longrightarrow> p_weight_kg profile' = v)
         \<and> (r_preferred_workout_time request = Unset
              \<longrightarrow> p_preferred_workout_time profile' = p_preferred_workout_time base)
         \<and> (\<forall>v. r_preferred_workout_time request = Given v
              \<longrightarrow> p_preferred_workout_time profile' = v)
         \<and> (r_injury_notes request = Unset \<longrightarrow> p_injury_notes profile' = p_injury_notes base)
         \<and> (\<forall>v. r_injury_notes request = Given v \<longrightarrow> p_injury_notes profile' = v))
   \<and> (\<exists>response1 session1 response2 session2 profile2.
           complete_onboarding age_only current_user session env = (Inr response1, session1)
         \<and> complete_onboarding age_only current_user session1 env' = (Inr response2, session2)
         \<and> profile_of session2 user = Some profile2
         \<and> p_has_completed_onboarding profile2
         \<and> p_goals profile2 = p_goals base \<and> p_equipment profile2 = p_equipment base
         \<and> p_age profile2 = Some 25)"
  using onboarding_step [OF assms, of request]
    onboarding_twice [OF assms, of age_only "Some 25" env']
  by (simp add: age_only_def)

text \<open>
  Ann's token with the body \<^verbatim>\<open>{"age": 25}\<close>: the goals and the equipment she had set
  stay, the age is written and the flag is set.
\<close>

theorem onboarding_partial_update_witness:
  "get_current_user (service_with (client_returning ann_response) None) ''token-ann''
     = Inr ann_info
   \<and> consistent sample_db \<and> ann \<in> set (users sample_db)
   \<and> profile_of sample_db ann = Some ann_profile
   \<and> (\<exists>session' profile'.
         complete_onboarding age_only ann_info sample_db sample_env
           = (Inr (UserProfileResponse ann profile'), session')
       \<and> profile_of session' ann = Some profile'
       \<and> p_has_completed_onboarding profile'
       \<and> p_age profile' = Some 25
       \<and> p_goals profile' = Some [''strength'', ''mobility'']
       \<and> p_equipment profile' = Some [''dumbbells''])
   \<and> (\<exists>response1 session1 response2 session2 profile2.
         complete_onboarding age_only ann_info sample_db sample_env = (Inr response1, session1)
       \<and> complete_onboarding age_only ann_info session1 later_env = (Inr response2, session2)
       \<and> profile_of session2 ann = Some profile2
       \<and> p_has_completed_onboarding profile2
       \<and> p_goals profile2 = Some [''strength'', ''mobility'']
       \<and> p_equipment profile2 = Some [''dumbbells'']
       \<and> p_age profile2 = Some 25)"
proof -
  have v: "get_current_user (service_with (client_returning ann_response) None) ''token-ann''
           = Inr ann_info"
    by (simp add: get_current_user_def verify_token_def service_with_def client_returning_def
        ann_response_def ann_info_def try_bind_def dict_item_def dict_get_def dict_set_def)
  have c: "consistent sample_db"
    by (simp add: consistent_def sample_db_def ann_def ann_profile_def)
  have u: "ann \<in> set (users sample_db)" by (simp add: sample_db_def)
  have sub: "dict_get ann_info ''sub'' = PStr (u_cognito_id ann)"
    by (simp add: ann_info_def ann_def dict_get_def)
  have p: "profile_of sample_db ann = Some ann_profile"
    by (simp add: profile_of_def sample_db_def ann_def ann_profile_def)
  then have base: "ann_profile = (case profile_of sample_db ann of
                       Some p \<Rightarrow> p | None \<Rightarrow> new_profile sample_env (u_id ann))"
    by simp
  have fresh: "profile_of sample_db ann = None
               \<longrightarrow> \<not> list_ex (\<lambda>p. p_id p = new_profile_id sample_env) (user_profiles sample_db)"
    using p by simp
  have g: "p_goals ann_profile = Some [''strength'', ''mobility'']"
    and e: "p_equipment ann_profile = Some [''dumbbells'']"
    by (simp_all add: ann_profile_def)
  note claim = onboarding_partial_update
    [OF v c u sub fresh base, where request = age_only and env' = later_env]
  from claim obtain session' profile' where
    "complete_onboarding age_only ann_info sample_db sample_env
       = (Inr (UserProfileResponse ann profile'), session')"
    "profile_of session' ann = Some profile'"
    "p_has_completed_onboarding profile'"
    "p_age profile' = Some 25"
    "p_goals profile' = p_goals ann_profile"
    "p_equipment profile' = p_equipment ann_profile"
    by (auto simp: age_only_def)
  then have first: "\<exists>session' profile'.
         complete_onboarding age_only ann_info sample_db sample_env
           = (Inr (UserProfileResponse ann profile'), session')
       \<and> profile_of session' ann = Some profile'
       \<and> p_has_completed_onboarding profile'
       \<and> p_age profile' = Some 25
       \<and> p_goals profile' = Some [''strength'', ''mobility'']
       \<and> p_equipment profile' = Some [''dumbbells'']"
    using g e by auto
  from claim have second: "\<exists>response1 session1 response2 session2 profile2.
         complete_onboarding age_only ann_info sample_db sample_env = (Inr response1, session1)
       \<and> complete_onboarding age_only ann_info session1 later_env = (Inr response2, session2)
       \<and> profile_of session2 ann = Some profile2
       \<and> p_has_completed_onboarding profile2
       \<and> p_goals profile2 = Some [''strength'', ''mobility'']
       \<and> p_equipment profile2 = Some [''dumbbells'']
       \<and> p_age profile2 = Some 25"
    unfolding g e by (elim conjE) assumption
  from v c u p first second show ?thesis by (intro conjI)
qed

end
